theory Spec2Isabelle
  imports Complex_Main "HOL-Library.Word"
begin

unbundle bit_operations_syntax

section \<open>Python values\<close>

text \<open>
  A Python \<open>str\<close> is a sequence of Unicode code points, so \<open>len\<close> is \<open>length\<close> and
  the slice \<open>s[n:]\<close> is \<open>drop n s\<close>. Code points are natural numbers (below \<open>0x110000\<close>
  in Python); lone surrogates (\<open>0xD800..0xDFFF\<close>) are legal elements of a \<open>str\<close>.
  \<open>bytes\<close> are lists of 8-bit words. Python \<open>float\<close>s are idealised as reals.
\<close>

type_synonym pystr = "nat list"
type_synonym byte = "8 word"
type_synonym u32 = "32 word"

definition str_lit :: "string \<Rightarrow> pystr" where
  "str_lit s = map of_char s"

text \<open>An exception: its class name and \<open>str(e)\<close>.\<close>

datatype exn = Exn (exn_class: string) (exn_str: pystr)

text \<open>Truthiness of an \<open>Optional[str]\<close>: \<open>None\<close> and the empty string are falsy.\<close>

fun truthy :: "pystr option \<Rightarrow> bool" where
  "truthy None = False"
| "truthy (Some s) = (s \<noteq> [])"

subsection \<open>\<open>str.strip()\<close>\<close>

text \<open>The code points for which \<open>str.isspace()\<close> holds.\<close>

definition isspace :: "nat \<Rightarrow> bool" where
  "isspace c \<longleftrightarrow>
     (0x09 \<le> c \<and> c \<le> 0x0D) \<or> (0x1C \<le> c \<and> c \<le> 0x20) \<or> c = 0x85 \<or> c = 0xA0 \<or>
     c = 0x1680 \<or> (0x2000 \<le> c \<and> c \<le> 0x200A) \<or> c = 0x2028 \<or> c = 0x2029 \<or>
     c = 0x202F \<or> c = 0x205F \<or> c = 0x3000"

definition strip :: "pystr \<Rightarrow> pystr" where
  "strip s = rev (dropWhile isspace (rev (dropWhile isspace s)))"

subsection \<open>Printing numbers\<close>

definition hex_digit :: "nat \<Rightarrow> nat" where
  "hex_digit n = str_lit ''0123456789abcdef'' ! (n mod 16)"

fun str_nat :: "nat \<Rightarrow> pystr" where
  "str_nat n = (if n < 10 then [48 + n] else str_nat (n div 10) @ [48 + n mod 10])"

subsection \<open>\<open>str.encode()\<close> and \<open>bytes.decode()\<close>: UTF-8, errors='strict'\<close>

definition is_surrogate :: "nat \<Rightarrow> bool" where
  "is_surrogate c \<longleftrightarrow> 0xD800 \<le> c \<and> c \<le> 0xDFFF"

definition utf8_char :: "nat \<Rightarrow> byte list" where
  "utf8_char c =
     (if c < 0x80 then [of_nat c]
      else if c < 0x800 then [of_nat (0xC0 + c div 64), of_nat (0x80 + c mod 64)]
      else if c < 0x10000 then
        [of_nat (0xE0 + c div 4096), of_nat (0x80 + c div 64 mod 64), of_nat (0x80 + c mod 64)]
      else
        [of_nat (0xF0 + c div 262144), of_nat (0x80 + c div 4096 mod 64),
         of_nat (0x80 + c div 64 mod 64), of_nat (0x80 + c mod 64)])"

text \<open>
  The message of the \<open>UnicodeEncodeError\<close> raised for the first run of surrogates, which
  starts at position \<open>i\<close> of \<open>s\<close>.
\<close>

definition encode_error :: "pystr \<Rightarrow> nat \<Rightarrow> exn" where
  "encode_error s i =
     (let c = s ! i; n = length (takeWhile is_surrogate (drop i s)); q = [0x27] in
      Exn ''UnicodeEncodeError''
        (if n = 1 then
           q @ str_lit ''utf-8'' @ q @ str_lit '' codec can'' @ q @
           str_lit ''t encode character '' @ q @ [0x5C, 0x75] @
           map hex_digit [c div 4096, c div 256, c div 16, c] @ q @
           str_lit '' in position '' @ str_nat i @ str_lit '': surrogates not allowed''
         else
           q @ str_lit ''utf-8'' @ q @ str_lit '' codec can'' @ q @
           str_lit ''t encode characters in position '' @
           str_nat i @ str_lit ''-'' @ str_nat (i + n - 1) @ str_lit '': surrogates not allowed''))"

definition encode :: "pystr \<Rightarrow> exn + byte list" where
  "encode s =
     (case find is_surrogate s of
        None \<Rightarrow> Inr (concat (map utf8_char s))
      | Some _ \<Rightarrow> Inl (encode_error s (length (takeWhile (\<lambda>c. \<not> is_surrogate c) s))))"

text \<open>
  Decoding reads a lead byte and its continuation bytes; it fails (\<open>UnicodeDecodeError\<close>,
  here \<open>None\<close>) on a stray or missing continuation byte, an overlong form, a surrogate and
  a value above \<open>0x10FFFF\<close>.
\<close>

definition is_cont :: "byte \<Rightarrow> bool" where
  "is_cont b \<longleftrightarrow> 0x80 \<le> unat b \<and> unat b \<le> 0xBF"

fun decode :: "byte list \<Rightarrow> pystr option" where
  "decode [] = Some []"
| "decode (b # bs) =
     (let n = unat b in
      if n < 0x80 then map_option ((#) n) (decode bs)
      else if 0xC0 \<le> n \<and> n < 0xE0 then
        (case bs of
           b1 # r \<Rightarrow>
             (let c = (n - 0xC0) * 64 + (unat b1 - 0x80) in
              if is_cont b1 \<and> 0x80 \<le> c then map_option ((#) c) (decode r) else None)
         | _ \<Rightarrow> None)
      else if 0xE0 \<le> n \<and> n < 0xF0 then
        (case bs of
           b1 # b2 # r \<Rightarrow>
             (let c = (n - 0xE0) * 4096 + (unat b1 - 0x80) * 64 + (unat b2 - 0x80) in
              if is_cont b1 \<and> is_cont b2 \<and> 0x800 \<le> c \<and> \<not> is_surrogate c
              then map_option ((#) c) (decode r) else None)
         | _ \<Rightarrow> None)
      else if 0xF0 \<le> n \<and> n < 0xF8 then
        (case bs of
           b1 # b2 # b3 # r \<Rightarrow>
             (let c = (n - 0xF0) * 262144 + (unat b1 - 0x80) * 4096 + (unat b2 - 0x80) * 64
                      + (unat b3 - 0x80) in
              if is_cont b1 \<and> is_cont b2 \<and> is_cont b3 \<and> 0x10000 \<le> c \<and> c < 0x110000
              then map_option ((#) c) (decode r) else None)
         | _ \<Rightarrow> None)
      else None)"

section \<open>\<open>hashlib.md5\<close> (RFC 1321)\<close>

definition md5_K :: "u32 list" where
  "md5_K =
    [0xd76aa478, 0xe8c7b756, 0x242070db, 0xc1bdceee, 0xf57c0faf, 0x4787c62a, 0xa8304613, 0xfd469501,
     0x698098d8, 0x8b44f7af, 0xffff5bb1, 0x895cd7be, 0x6b901122, 0xfd987193, 0xa679438e, 0x49b40821,
     0xf61e2562, 0xc040b340, 0x265e5a51, 0xe9b6c7aa, 0xd62f105d, 0x02441453, 0xd8a1e681, 0xe7d3fbc8,
     0x21e1cde6, 0xc33707d6, 0xf4d50d87, 0x455a14ed, 0xa9e3e905, 0xfcefa3f8, 0x676f02d9, 0x8d2a4c8a,
     0xfffa3942, 0x8771f681, 0x6d9d6122, 0xfde5380c, 0xa4beea44, 0x4bdecfa9, 0xf6bb4b60, 0xbebfbc70,
     0x289b7ec6, 0xeaa127fa, 0xd4ef3085, 0x04881d05, 0xd9d4d039, 0xe6db99e5, 0x1fa27cf8, 0xc4ac5665,
     0xf4292244, 0x432aff97, 0xab9423a7, 0xfc93a039, 0x655b59c3, 0x8f0ccc92, 0xffeff47d, 0x85845dd1,
     0x6fa87e4f, 0xfe2ce6e0, 0xa3014314, 0x4e0811a1, 0xf7537e82, 0xbd3af235, 0x2ad7d2bb, 0xeb86d391]"

definition md5_S :: "nat list" where
  "md5_S =
    [7, 12, 17, 22, 7, 12, 17, 22, 7, 12, 17, 22, 7, 12, 17, 22,
     5, 9, 14, 20, 5, 9, 14, 20, 5, 9, 14, 20, 5, 9, 14, 20,
     4, 11, 16, 23, 4, 11, 16, 23, 4, 11, 16, 23, 4, 11, 16, 23,
     6, 10, 15, 21, 6, 10, 15, 21, 6, 10, 15, 21, 6, 10, 15, 21]"

definition rotl32 :: "u32 \<Rightarrow> nat \<Rightarrow> u32" where
  "rotl32 x n = push_bit n x OR drop_bit (32 - n) x"

text \<open>Operation \<open>i\<close> (of 64) on the state \<open>(A, B, C, D)\<close>, with the block's 16 words \<open>M\<close>.\<close>

definition md5_step :: "u32 list \<Rightarrow> u32 \<times> u32 \<times> u32 \<times> u32 \<Rightarrow> nat \<Rightarrow> u32 \<times> u32 \<times> u32 \<times> u32" where
  "md5_step M st i =
     (case st of (A, B, C, D) \<Rightarrow>
        let (F, g) =
              (if i < 16 then ((B AND C) OR (NOT B AND D), i)
               else if i < 32 then ((D AND B) OR (NOT D AND C), (5 * i + 1) mod 16)
               else if i < 48 then (B XOR C XOR D, (3 * i + 5) mod 16)
               else (C XOR (B OR NOT D), (7 * i) mod 16));
            F' = F + A + md5_K ! i + M ! g
        in (D, B + rotl32 F' (md5_S ! i), B, C))"

text \<open>Little-endian reading and writing of integers.\<close>

definition le_word :: "byte list \<Rightarrow> u32" where
  "le_word bs = foldr (\<lambda>b w. push_bit 8 w OR ucast b) bs 0"

definition le_bytes :: "nat \<Rightarrow> nat \<Rightarrow> byte list" where
  "le_bytes k n = map (\<lambda>i. of_nat (n div 256 ^ i mod 256)) [0..<k]"

fun chunks :: "nat \<Rightarrow> 'a list \<Rightarrow> 'a list list" where
  "chunks n [] = []"
| "chunks n (x # xs) =
     (if n = 0 then [x # xs] else take n (x # xs) # chunks n (drop n (x # xs)))"

definition md5_block :: "u32 \<times> u32 \<times> u32 \<times> u32 \<Rightarrow> byte list \<Rightarrow> u32 \<times> u32 \<times> u32 \<times> u32" where
  "md5_block st blk =
     (let M = map le_word (chunks 4 blk) in
      case st of (a0, b0, c0, d0) \<Rightarrow>
      case foldl (md5_step M) st [0..<64] of (A, B, C, D) \<Rightarrow>
        (a0 + A, b0 + B, c0 + C, d0 + D))"

text \<open>Padding: a 1 bit, zeros up to 56 mod 64 bytes, the bit length in 8 bytes.\<close>

definition md5_pad :: "byte list \<Rightarrow> byte list" where
  "md5_pad msg =
     (let n = length msg in
      msg @ [0x80] @ replicate ((119 - n mod 64) mod 64) 0 @ le_bytes 8 (8 * n mod 2 ^ 64))"

definition md5 :: "byte list \<Rightarrow> byte list" where
  "md5 msg =
     (case foldl md5_block (0x67452301, 0xefcdab89, 0x98badcfe, 0x10325476)
             (chunks 64 (md5_pad msg)) of
        (A, B, C, D) \<Rightarrow> concat (map (\<lambda>w. le_bytes 4 (unat w)) [A, B, C, D]))"

definition hexdigest :: "byte list \<Rightarrow> pystr" where
  "hexdigest bs = concat (map (\<lambda>b. [hex_digit (unat b div 16), hex_digit (unat b)]) bs)"

text \<open>The identity on 32-bit words; evaluation reduces a numeral modulo \<open>2 ^ 32\<close> under it.\<close>

definition norm32 :: "u32 \<Rightarrow> u32" where
  "norm32 w = w"

section \<open>\<open>config.py\<close>\<close>

definition MAX_LENGTH :: int where
  "MAX_LENGTH = 100"

definition TEMPERATURE :: real where
  "TEMPERATURE = 7 / 10"

definition CACHE_TTL :: nat where
  "CACHE_TTL = 3600"

section \<open>The external collaborators\<close>

text \<open>
  The redis client, the tokenizer with the model, the clock and \<open>psutil\<close> are not part of
  the repository. The redis server is a state of any type \<open>'r\<close>, the model with its
  sampling state is of any type \<open>'e\<close>; their calls are parameters of the program, and a
  call either raises (\<open>Inl\<close>) or returns (\<open>Inr\<close>):
  \<^item> \<open>redis_get r key\<close> is \<open>redis_client.get(key)\<close>: the stored bytes or \<open>None\<close>;
  \<^item> \<open>redis_setex r key ttl value\<close> is \<open>redis_client.setex(key, ttl, value)\<close>: the server
    after the write;
  \<^item> \<open>engine_generate e request\<close> is lines 57 to 71 of \<open>app.py\<close> (tokenize, generate,
    decode): the decoded output, and the engine after the call.
\<close>

record ('r, 'e) externals =
  redis_get :: "'r \<Rightarrow> pystr \<Rightarrow> exn + byte list option"
  redis_setex :: "'r \<Rightarrow> pystr \<Rightarrow> nat \<Rightarrow> pystr \<Rightarrow> exn + 'r"
  engine_generate :: "'e \<Rightarrow> pystr \<times> int \<times> real \<Rightarrow> (exn + pystr) \<times> 'e"

text \<open>
  What one request reads from the clock and from \<open>psutil\<close>: \<open>time.time()\<close> at line 41 of
  \<open>app.py\<close>, at line 46 or 78, and at lines 23 and 26 of \<open>metrics.py\<close>;
  \<open>psutil.virtual_memory().percent\<close> and \<open>psutil.cpu_percent()\<close>.
\<close>

record sensors =
  time_start :: real
  time_done :: real
  time_record :: real
  time_stamp :: real
  virtual_memory_percent :: "exn + real"
  cpu_percent :: "exn + real"

section \<open>\<open>cache.py\<close>\<close>

text \<open>
  A \<open>Cache\<close> has \<open>cache_type == "redis"\<close> and a \<open>redis_client\<close>, or
  \<open>cache_type == "memory"\<close> and the dict \<open>memory_cache\<close>.
\<close>

datatype 'r Cache = RedisCache 'r | MemoryCache "pystr \<rightharpoonup> pystr"

fun cache_type :: "'r Cache \<Rightarrow> pystr" where
  "cache_type (RedisCache r) = str_lit ''redis''"
| "cache_type (MemoryCache m) = str_lit ''memory''"

definition Cache_init :: "bool \<Rightarrow> 'r \<Rightarrow> 'r Cache" where
  "Cache_init use_redis client = (if use_redis then RedisCache client else MemoryCache Map.empty)"

definition get_key :: "pystr \<Rightarrow> exn + pystr" where
  "get_key text = (case encode text of Inl e \<Rightarrow> Inl e | Inr bs \<Rightarrow> Inr (hexdigest (md5 bs)))"

definition Cache_get :: "('r, 'e) externals \<Rightarrow> 'r Cache \<Rightarrow> pystr \<Rightarrow> exn + pystr option" where
  "Cache_get ext self text =
     (case get_key text of
        Inl e \<Rightarrow> Inl e
      | Inr key \<Rightarrow>
          (case self of
             RedisCache client \<Rightarrow>
               (case redis_get ext client key of
                  Inl e \<Rightarrow> Inr None
                | Inr None \<Rightarrow> Inr None
                | Inr (Some cached) \<Rightarrow> if cached \<noteq> [] then Inr (decode cached) else Inr None)
           | MemoryCache memory_cache \<Rightarrow> Inr (memory_cache key)))"

definition Cache_set :: "('r, 'e) externals \<Rightarrow> 'r Cache \<Rightarrow> pystr \<Rightarrow> pystr \<Rightarrow> exn + 'r Cache" where
  "Cache_set ext self text response =
     (case get_key text of
        Inl e \<Rightarrow> Inl e
      | Inr key \<Rightarrow>
          (case self of
             RedisCache client \<Rightarrow>
               (case redis_setex ext client key CACHE_TTL response of
                  Inl e \<Rightarrow> Inr (RedisCache client)
                | Inr client' \<Rightarrow> Inr (RedisCache client'))
           | MemoryCache memory_cache \<Rightarrow> Inr (MemoryCache (memory_cache(key \<mapsto> response)))))"

section \<open>\<open>metrics.py\<close>\<close>

record RequestMetrics =
  timestamp :: real
  response_time :: real
  input_length :: nat
  output_length :: nat
  cache_hit :: bool
  memory_usage :: real
  cpu_usage :: real

record MetricsCollector =
  requests :: "RequestMetrics list"
  max_requests :: nat

definition MetricsCollector_init :: MetricsCollector where
  "MetricsCollector_init = \<lparr>requests = [], max_requests = 1000\<rparr>"

text \<open>
  Lines 23 to 33 of \<open>record_request\<close>: the observation is built from the clock and from
  \<open>psutil\<close>, read in this order; a reading that raises ends the call.
\<close>

definition observe ::
  "sensors \<Rightarrow> real \<Rightarrow> pystr \<Rightarrow> pystr \<Rightarrow> bool \<Rightarrow> exn + RequestMetrics" where
  "observe sn start_time input_text output_text hit =
     (let rt = time_record sn - start_time in
      case virtual_memory_percent sn of
        Inl e \<Rightarrow> Inl e
      | Inr mem \<Rightarrow>
          (case cpu_percent sn of
             Inl e \<Rightarrow> Inl e
           | Inr cpu \<Rightarrow>
               Inr \<lparr>timestamp = time_stamp sn, response_time = rt,
                    input_length = length input_text, output_length = length output_text,
                    cache_hit = hit, memory_usage = mem, cpu_usage = cpu\<rparr>))"

text \<open>
  Lines 35 to 37: the observation is appended, and the first entry is popped when the
  list is longer than \<open>max_requests\<close>.
\<close>

definition record_request ::
  "sensors \<Rightarrow> MetricsCollector \<Rightarrow> real \<Rightarrow> pystr \<Rightarrow> pystr \<Rightarrow> bool \<Rightarrow> exn + MetricsCollector" where
  "record_request sn self start_time input_text output_text hit =
     (case observe sn start_time input_text output_text hit of
        Inl e \<Rightarrow> Inl e
      | Inr metrics \<Rightarrow>
          (let rs = requests self @ [metrics]
           in Inr (self\<lparr>requests := (if length rs > max_requests self then tl rs else rs)\<rparr>)))"

text \<open>
  A sequence of calls of \<open>record_request\<close>, each with its own readings and arguments; a
  call that raises leaves the collector as it was.
\<close>

type_synonym record_call = "sensors \<times> real \<times> pystr \<times> pystr \<times> bool"

fun observation :: "record_call \<Rightarrow> exn + RequestMetrics" where
  "observation (sn, start_time, input_text, output_text, hit) =
     observe sn start_time input_text output_text hit"

fun record_requests :: "MetricsCollector \<Rightarrow> record_call list \<Rightarrow> MetricsCollector" where
  "record_requests self [] = self"
| "record_requests self ((sn, start_time, input_text, output_text, hit) # calls) =
     record_requests
       (case record_request sn self start_time input_text output_text hit of
          Inl e \<Rightarrow> self
        | Inr self' \<Rightarrow> self')
       calls"

text \<open>Python's \<open>/\<close> by a length: it raises on zero.\<close>

definition truediv :: "real \<Rightarrow> nat \<Rightarrow> exn + real" where
  "truediv x n =
     (if n = 0 then Inl (Exn ''ZeroDivisionError'' (str_lit ''division by zero''))
      else Inr (x / real n))"

record Stats =
  total_requests :: nat
  avg_response_time :: real
  cache_hit_rate :: real
  avg_memory_usage :: real
  avg_cpu_usage :: real
  latest_request :: "RequestMetrics option"

text \<open>The dict that \<open>get_stats\<close> returns: \<open>{"message": ...}\<close> or the six statistics.\<close>

datatype stats_dict = Message pystr | Summary Stats

definition get_stats :: "MetricsCollector \<Rightarrow> exn + stats_dict" where
  "get_stats self =
     (if requests self = [] then Inr (Message (str_lit ''No requests recorded''))
      else
        let recent = drop (length (requests self) - 100) (requests self) in
        case truediv (sum_list (map response_time recent)) (length recent) of
          Inl e \<Rightarrow> Inl e
        | Inr art \<Rightarrow>
        case truediv (real (length (filter cache_hit recent))) (length recent) of
          Inl e \<Rightarrow> Inl e
        | Inr chr \<Rightarrow>
        case truediv (sum_list (map memory_usage recent)) (length recent) of
          Inl e \<Rightarrow> Inl e
        | Inr amu \<Rightarrow>
        case truediv (sum_list (map cpu_usage recent)) (length recent) of
          Inl e \<Rightarrow> Inl e
        | Inr acu \<Rightarrow>
            Inr (Summary \<lparr>total_requests = length (requests self), avg_response_time = art,
                          cache_hit_rate = chr, avg_memory_usage = amu, avg_cpu_usage = acu,
                          latest_request = (if recent \<noteq> [] then Some (last recent) else None)\<rparr>))"

section \<open>\<open>app.py\<close>\<close>

text \<open>The module's globals: the cache, the metrics collector and the loaded model.\<close>

record ('r, 'e) app =
  cache :: "'r Cache"
  metrics_collector :: MetricsCollector
  engine :: 'e

text \<open>\<open>GenerateRequest\<close>; its field \<open>text\<close> is \<open>input_text\<close> here.\<close>

record GenerateRequest =
  input_text :: pystr
  max_length :: int
  temperature :: real

text \<open>\<open>GenerateResponse\<close>: the fields \<open>response\<close>, \<open>cached\<close> and \<open>response_time\<close>.\<close>

datatype GenerateResponse = GenerateResponse (response: pystr) (cached: bool) (elapsed: real)

text \<open>
  How a call of the handler ends: it returns a response, raises \<open>HTTPException\<close> with a
  status code and a detail, or lets another exception escape.
\<close>

datatype outcome = Returns GenerateResponse | HTTPException nat pystr | Raises exn

definition generation_failed :: "exn \<Rightarrow> outcome" where
  "generation_failed e = HTTPException 500 (str_lit ''Generation failed: '' @ exn_str e)"

definition generate_text ::
  "('r, 'e) externals \<Rightarrow> sensors \<Rightarrow> ('r, 'e) app \<Rightarrow> GenerateRequest \<Rightarrow> outcome \<times> ('r, 'e) app" where
  "generate_text ext sn s request =
     (let start_time = time_start sn in
      case Cache_get ext (cache s) (input_text request) of
        Inl e \<Rightarrow> (Raises e, s)
      | Inr cached_response \<Rightarrow>
          if truthy cached_response then
            (let response_time = time_done sn - start_time in
             case record_request sn (metrics_collector s) start_time (input_text request)
                    (the cached_response) True of
               Inl e \<Rightarrow> (Raises e, s)
             | Inr mc \<Rightarrow>
                 (Returns (GenerateResponse (the cached_response) True response_time),
                  s\<lparr>metrics_collector := mc\<rparr>))
          else
            (case engine_generate ext (engine s)
                    (input_text request, max_length request, temperature request) of
               (Inl e, eng) \<Rightarrow> (generation_failed e, s\<lparr>engine := eng\<rparr>)
             | (Inr decoded, eng) \<Rightarrow>
                 (let s1 = s\<lparr>engine := eng\<rparr>;
                      response = strip (drop (length (input_text request)) decoded) in
                  case Cache_set ext (cache s1) (input_text request) response of
                    Inl e \<Rightarrow> (generation_failed e, s1)
                  | Inr c \<Rightarrow>
                      (let s2 = s1\<lparr>cache := c\<rparr>;
                           response_time = time_done sn - start_time in
                       case record_request sn (metrics_collector s2) start_time (input_text request)
                              response False of
                         Inl e \<Rightarrow> (generation_failed e, s2)
                       | Inr mc \<Rightarrow>
                           (Returns (GenerateResponse response False response_time),
                            s2\<lparr>metrics_collector := mc\<rparr>)))))"

definition get_metrics :: "('r, 'e) app \<Rightarrow> exn + stats_dict" where
  "get_metrics s = get_stats (metrics_collector s)"

section \<open>Example inputs\<close>

text \<open>Readings of a call in which the clock and \<open>psutil\<close> answer.\<close>

definition sensors_ok :: sensors where
  "sensors_ok = \<lparr>time_start = 10, time_done = 12, time_record = 13, time_stamp = 14,
                  virtual_memory_percent = Inr 50, cpu_percent = Inr 25\<rparr>"

definition observation_example :: "bool \<Rightarrow> real \<Rightarrow> RequestMetrics" where
  "observation_example hit rt =
     \<lparr>timestamp = 14, response_time = rt, input_length = 0, output_length = 0,
      cache_hit = hit, memory_usage = 50, cpu_usage = 25\<rparr>"

text \<open>
  A redis client that raises on every call, and an engine that answers the request's text
  \<open>t\<close> with \<open>reply t\<close> and counts its calls.
\<close>

definition ext_example :: "(pystr \<Rightarrow> exn + pystr) \<Rightarrow> (unit, nat) externals" where
  "ext_example reply =
     \<lparr>redis_get = (\<lambda>r key. Inl (Exn ''ConnectionError'' (str_lit ''Connection refused''))),
      redis_setex = (\<lambda>r key ttl v. Inl (Exn ''ConnectionError'' (str_lit ''Connection refused''))),
      engine_generate = (\<lambda>e (t, ml, temp). (reply t, Suc e))\<rparr>"

definition app_example :: "unit Cache \<Rightarrow> (unit, nat) app" where
  "app_example c = \<lparr>cache = c, metrics_collector = MetricsCollector_init, engine = 0\<rparr>"

definition request_hello :: GenerateRequest where
  "request_hello =
     \<lparr>input_text = str_lit ''Hello'', max_length = MAX_LENGTH, temperature = TEMPERATURE\<rparr>"

text \<open>Readings of a call in which \<open>psutil.virtual_memory()\<close> raises.\<close>

definition sensors_broken :: sensors where
  "sensors_broken =
     sensors_ok\<lparr>virtual_memory_percent := Inl (Exn ''OSError'' (str_lit ''no such file''))\<rparr>"

text \<open>
  Three engines: one continues the prompt with \<open>" world"\<close>, one returns the prompt alone, one
  raises.
\<close>

definition engine_world :: "pystr \<Rightarrow> exn + pystr" where
  "engine_world t = Inr (t @ str_lit '' world'')"

definition engine_echo :: "pystr \<Rightarrow> exn + pystr" where
  "engine_echo t = Inr t"

definition engine_broken :: "pystr \<Rightarrow> exn + pystr" where
  "engine_broken t = Inl (Exn ''RuntimeError'' (str_lit ''out of memory''))"

text \<open>The in-process cache that holds the completion \<open>"world"\<close> of the prompt \<open>"Hello"\<close>.\<close>

definition cache_hello :: "unit Cache" where
  "cache_hello = MemoryCache [str_lit ''8b1a9953c4611296a827abf8c47804d7'' \<mapsto> str_lit ''world'']"

text \<open>
  Two texts of 72 ASCII characters that differ in the character at index 21 and have the same
  MD5 digest.
\<close>

definition text_collision_1 :: pystr where
  "text_collision_1 =
     str_lit ''TEXTCOLLBYfGiJUETHQ4hAcKSMd5zYpgqf1YRDhkmxHkhPWptrkoyz28wnI9V0aHeAuaKnak''"

definition text_collision_2 :: pystr where
  "text_collision_2 =
     str_lit ''TEXTCOLLBYfGiJUETHQ4hEcKSMd5zYpgqf1YRDhkmxHkhPWptrkoyz28wnI9V0aHeAuaKnak''"

section \<open>The metrics history\<close>

lemma record_request_Inr:
  "observe sn st i out hit = Inr m \<Longrightarrow>
   record_request sn self st i out hit =
     Inr (self\<lparr>requests := (if max_requests self < Suc (length (requests self))
                              then tl (requests self @ [m]) else requests self @ [m])\<rparr>)"
  by (simp add: record_request_def Let_def)

lemma record_request_Inl:
  "observe sn st i out hit = Inl e \<Longrightarrow> record_request sn self st i out hit = Inl e"
  by (simp add: record_request_def)

lemma record_request_bounded:
  assumes "record_request sn self st i out hit = Inr self'"
    and "length (requests self) \<le> max_requests self"
  shows "length (requests self') \<le> max_requests self' \<and> max_requests self' = max_requests self"
  using assms
  by (auto simp: record_request_def Let_def split: sum.splits if_splits)

lemma record_requests_bounded:
  "length (requests self) \<le> max_requests self \<Longrightarrow>
   length (requests (record_requests self calls)) \<le> max_requests self \<and>
   max_requests (record_requests self calls) = max_requests self"
proof (induction calls arbitrary: self)
  case Nil
  then show ?case by simp
next
  case (Cons c calls)
  obtain sn st i out hit where c: "c = (sn, st, i, out, hit)"
    by (cases c) auto
  show ?case
  proof (cases "record_request sn self st i out hit")
    case (Inl e)
    with Cons c show ?thesis by simp
  next
    case (Inr self')
    from record_request_bounded [OF Inr Cons.prems]
    have "length (requests self') \<le> max_requests self'" and m: "max_requests self' = max_requests self"
      by simp_all
    from Cons.IH [OF this(1)] m Inr c show ?thesis by simp
  qed
qed

lemma record_requests_window:
  assumes "\<forall>c\<in>set calls. isl (observation c) = False"
    and "max_requests self = 1000" and "length (requests self) \<le> 1000"
  shows "requests (record_requests self calls) =
         drop (length (requests self) + length calls - 1000)
              (requests self @ map (\<lambda>c. projr (observation c)) calls)"
  using assms
proof (induction calls arbitrary: self)
  case Nil
  then show ?case by simp
next
  case (Cons c calls)
  obtain sn st i out hit where c: "c = (sn, st, i, out, hit)"
    by (cases c) auto
  from Cons.prems(1) c obtain m where m: "observe sn st i out hit = Inr m"
    by (cases "observe sn st i out hit") auto
  let ?rs = "requests self"
  define self' where "self' = self\<lparr>requests := (if max_requests self < Suc (length ?rs)
                              then tl (?rs @ [m]) else ?rs @ [m])\<rparr>"
  have step: "record_request sn self st i out hit = Inr self'"
    unfolding self'_def by (rule record_request_Inr [OF m])
  have max': "max_requests self' = 1000"
    using Cons.prems(2) by (simp add: self'_def)
  have len': "length (requests self') \<le> 1000"
    using Cons.prems(2,3) by (simp add: self'_def)
  have all: "\<forall>c\<in>set calls. isl (observation c) = False"
    using Cons.prems(1) by simp
  note IH = Cons.IH [OF all max' len']
  have obs: "projr (observation c) = m"
    using m c by simp
  show ?case
  proof (cases "length ?rs = 1000")
    case True
    then have ne: "?rs \<noteq> []" by auto
    have r': "requests self' = tl ?rs @ [m]"
      using True Cons.prems(2) ne by (simp add: self'_def)
    have "drop (Suc (length calls)) (?rs @ m # map (\<lambda>c. projr (observation c)) calls)
          = drop (length calls) (tl ?rs @ m # map (\<lambda>c. projr (observation c)) calls)"
      using ne by (cases ?rs) simp_all
    then show ?thesis
      using True r' IH step c obs by simp
  next
    case False
    then have lt: "length ?rs < 1000" using Cons.prems(3) by simp
    have r': "requests self' = ?rs @ [m]"
      using lt Cons.prems(2) by (simp add: self'_def)
    have "length ?rs + Suc (length calls) - 1000 = Suc (length ?rs) + length calls - 1000"
      by simp
    then show ?thesis
      using r' IH step c obs by simp
  qed
qed


text \<open>
  C3: the history never holds more than 1000 observations. After every sequence of
  \<open>record_request\<close> calls on the fresh collector it has at most 1000 entries, and one call
  keeps the bound; a call on a full history drops exactly the oldest entry and appends the
  new observation behind the others, which keep their order; 1001 observations recorded
  into the fresh collector leave the last 1000 of them, the first one gone.
\<close>

theorem C3_history_bounded:
  "length (requests (record_requests MetricsCollector_init calls)) \<le> 1000 \<and>
   (max_requests self = 1000 \<and> length (requests self) \<le> 1000 \<and>
    record_request sn self st i out hit = Inr self' \<longrightarrow>
      max_requests self' = 1000 \<and> length (requests self') \<le> 1000) \<and>
   (max_requests self = 1000 \<and> length (requests self) = 1000 \<and>
    observe sn st i out hit = Inr m \<longrightarrow>
      record_request sn self st i out hit = Inr (self\<lparr>requests := tl (requests self) @ [m]\<rparr>)) \<and>
   (length calls = 1001 \<and> (\<forall>c\<in>set calls. isl (observation c) = False) \<longrightarrow>
      requests (record_requests MetricsCollector_init calls) = tl (map (\<lambda>c. projr (observation c)) calls) \<and>
      length (requests (record_requests MetricsCollector_init calls)) = 1000)"
proof (intro conjI impI)
  show "length (requests (record_requests MetricsCollector_init calls)) \<le> 1000"
    using record_requests_bounded [of MetricsCollector_init calls]
    by (simp add: MetricsCollector_init_def)
next
  assume a: "max_requests self = 1000 \<and> length (requests self) \<le> 1000 \<and>
    record_request sn self st i out hit = Inr self'"
  then have "length (requests self') \<le> max_requests self' \<and> max_requests self' = max_requests self"
    by (intro record_request_bounded [of sn self st i out hit self']) simp_all
  with a show "max_requests self' = 1000" and "length (requests self') \<le> 1000" by simp_all
next
  assume a: "max_requests self = 1000 \<and> length (requests self) = 1000 \<and>
    observe sn st i out hit = Inr m"
  then have "requests self \<noteq> []" by auto
  with a show "record_request sn self st i out hit = Inr (self\<lparr>requests := tl (requests self) @ [m]\<rparr>)"
    by (simp add: record_request_Inr)
next
  assume a: "length calls = 1001 \<and> (\<forall>c\<in>set calls. isl (observation c) = False)"
  have w: "requests (record_requests MetricsCollector_init calls) =
         drop (length (requests MetricsCollector_init) + length calls - 1000)
              (requests MetricsCollector_init @ map (\<lambda>c. projr (observation c)) calls)"
    using a by (intro record_requests_window) (simp_all add: MetricsCollector_init_def)
  with a show r: "requests (record_requests MetricsCollector_init calls) = tl (map (\<lambda>c. projr (observation c)) calls)"
    by (simp add: MetricsCollector_init_def drop_Suc)
  show "length (requests (record_requests MetricsCollector_init calls)) = 1000"
    unfolding r using a by simp
qed

theorem C3_history_bounded_witness:
  "record_request sensors_ok \<lparr>requests = replicate 1000 (observation_example True 1), max_requests = 1000\<rparr>
       10 [] [] False =
     Inr \<lparr>requests = replicate 999 (observation_example True 1) @ [observation_example False 3],
          max_requests = 1000\<rparr> \<and>
   length (requests (record_requests MetricsCollector_init
       (replicate 1001 (sensors_ok, 10, [], [], False)))) = 1000"
  using C3_history_bounded [where calls = "replicate 1001 (sensors_ok, 10, [], [], False)"
      and self = "\<lparr>requests = replicate 1000 (observation_example True 1), max_requests = 1000\<rparr>"
      and sn = sensors_ok and st = 10 and i = "[]" and out = "[]" and hit = False
      and m = "observation_example False 3"]
  by (simp add: observe_def sensors_ok_def observation_example_def)

section \<open>The statistics\<close>

lemma truediv_pos: "0 < n \<Longrightarrow> truediv x n = Inr (x / real n)"
  by (simp add: truediv_def)

lemma get_stats_nonempty:
  assumes "requests self \<noteq> []"
  shows "get_stats self =
     (let recent = drop (length (requests self) - 100) (requests self); k = length recent in
      Inr (Summary \<lparr>total_requests = length (requests self),
                    avg_response_time = sum_list (map response_time recent) / real k,
                    cache_hit_rate = real (length (filter cache_hit recent)) / real k,
                    avg_memory_usage = sum_list (map memory_usage recent) / real k,
                    avg_cpu_usage = sum_list (map cpu_usage recent) / real k,
                    latest_request = Some (last recent)\<rparr>))"
proof -
  have pos: "0 < length (requests self)" using assms by simp
  then have ne: "\<not> length (requests self) \<le> length (requests self) - 100" by arith
  show ?thesis
    using assms pos ne by (simp add: get_stats_def truediv_def Let_def)
qed


text \<open>
  C7: on an empty history \<open>get_stats\<close> returns the marker "No requests recorded"; it
  divides nothing there, and it raises no \<open>ZeroDivisionError\<close> on any history.
\<close>

theorem C7_empty_history_no_division:
  "get_stats (self\<lparr>requests := []\<rparr>) = Inr (Message (str_lit ''No requests recorded''))
   \<and> get_stats MetricsCollector_init = Inr (Message (str_lit ''No requests recorded''))
   \<and> (\<exists>d. get_stats self = Inr d)"
proof -
  have "\<exists>d. get_stats self = Inr d"
  proof (cases "requests self = []")
    case True
    then show ?thesis by (simp add: get_stats_def)
  next
    case False
    then show ?thesis by (simp add: get_stats_nonempty Let_def)
  qed
  then show ?thesis
    by (simp add: get_stats_def MetricsCollector_init_def)
qed


text \<open>
  C4: on a history of \<open>n > 0\<close> observations \<open>get_stats\<close> reports \<open>total_requests = n\<close>, the
  whole history, while the three averages are arithmetic means over the last
  \<open>min 100 n\<close> observations only and \<open>cache_hit_rate\<close> is the number of hits among these
  divided by \<open>min 100 n\<close>; a window of 10 observations with 3 hits gives 3/10.
\<close>

theorem C4_stats_window:
  assumes "requests self \<noteq> []"
  shows "\<exists>st. get_stats self = Inr (Summary st) \<and>
     (let n = length (requests self); k = min 100 n; window = drop (n - k) (requests self) in
        length window = k \<and>
        total_requests st = n \<and>
        avg_response_time st = sum_list (map response_time window) / real k \<and>
        avg_memory_usage st = sum_list (map memory_usage window) / real k \<and>
        avg_cpu_usage st = sum_list (map cpu_usage window) / real k \<and>
        cache_hit_rate st = real (length (filter cache_hit window)) / real k \<and>
        (k = 10 \<and> length (filter cache_hit window) = 3 \<longrightarrow> cache_hit_rate st = 3 / 10))"
proof -
  let ?n = "length (requests self)"
  have eq: "?n - min 100 ?n = ?n - 100" by simp
  have len: "length (drop (?n - 100) (requests self)) = min 100 ?n" by simp
  show ?thesis
    unfolding get_stats_nonempty [OF assms] Let_def eq len by simp
qed

theorem C4_stats_window_witness:
  "(\<exists>st. get_stats \<lparr>requests = replicate 3 (observation_example True 1) @
                               replicate 7 (observation_example False 3),
                    max_requests = 1000\<rparr> = Inr (Summary st) \<and>
         total_requests st = 10 \<and> cache_hit_rate st = 3 / 10 \<and> avg_response_time st = 24 / 10) \<and>
   (\<exists>st. get_stats \<lparr>requests = replicate 50 (observation_example False 3) @
                               replicate 100 (observation_example True 1),
                    max_requests = 1000\<rparr> = Inr (Summary st) \<and>
         total_requests st = 150 \<and> cache_hit_rate st = 1 \<and> avg_response_time st = 1)"
  using C4_stats_window [of "\<lparr>requests = replicate 3 (observation_example True 1) @
                               replicate 7 (observation_example False 3),
                    max_requests = 1000\<rparr>"]
    C4_stats_window [of "\<lparr>requests = replicate 50 (observation_example False 3) @
                               replicate 100 (observation_example True 1),
                    max_requests = 1000\<rparr>"]
  by (auto simp: observation_example_def Let_def sum_list_replicate)

section \<open>Evaluating the digest\<close>

text \<open>
  Evaluation keeps every intermediate word reduced modulo \<open>2 ^ 32\<close>. The first two digests
  are test vectors of RFC 1321.
\<close>

lemma word32_of_int_mod: "(word_of_int (k mod 2 ^ 32) :: u32) = word_of_int k"
  by (simp add: word_of_int_eq_iff take_bit_eq_mod)

lemma norm32_numeral: "norm32 (numeral k) = word_of_int (numeral k mod 2 ^ 32)"
  unfolding norm32_def word32_of_int_mod by simp

lemma norm32_neg_numeral: "norm32 (- numeral k) = word_of_int (- numeral k mod 2 ^ 32)"
  unfolding norm32_def word32_of_int_mod by simp

lemma norm32_0: "norm32 0 = 0"
  by (simp add: norm32_def)

lemma norm32_1: "norm32 1 = 1"
  by (simp add: norm32_def)

lemma md5_step_norm:
  "md5_step M (A, B, C, D) i =
        (let (F, g) =
              (if i < 16 then ((B AND C) OR (NOT B AND D), i)
               else if i < 32 then ((D AND B) OR (NOT D AND C), (5 * i + 1) mod 16)
               else if i < 48 then (B XOR C XOR D, (3 * i + 5) mod 16)
               else (C XOR (B OR NOT D), (7 * i) mod 16));
            F' = F + A + md5_K ! i + M ! g
        in (D, norm32 (B + rotl32 F' (md5_S ! i)), B, C))"
  by (simp add: md5_step_def norm32_def)

lemma md5_block_norm:
  "md5_block (a0, b0, c0, d0) blk =
     (let M = map le_word (chunks 4 blk) in
      case foldl (md5_step M) (a0, b0, c0, d0) [0..<64] of (A, B, C, D) \<Rightarrow>
        (norm32 (a0 + A), norm32 (b0 + B), norm32 (c0 + C), norm32 (d0 + D)))"
  by (simp add: md5_block_def norm32_def)

lemma replicate_numeral: "replicate (numeral k) x = x # replicate (pred_numeral k) x"
  by (simp add: numeral_eq_Suc)

lemmas md5_eval = md5_def md5_pad_def md5_block_norm md5_step_norm md5_K_def md5_S_def rotl32_def
  le_word_def le_bytes_def hexdigest_def hex_digit_def str_lit_def upt_rec replicate_numeral
  norm32_numeral norm32_neg_numeral norm32_0 norm32_1

lemmas get_key_eval = get_key_def encode_def is_surrogate_def utf8_char_def md5_eval

lemma md5_empty: "hexdigest (md5 []) = str_lit ''d41d8cd98f00b204e9800998ecf8427e''"
  by (simp add: md5_eval)

lemma md5_abc: "hexdigest (md5 [0x61, 0x62, 0x63]) = str_lit ''900150983cd24fb0d6963f7d28e17f72''"
  by (simp add: md5_eval)

lemma get_key_Hello: "get_key (str_lit ''Hello'') = Inr (str_lit ''8b1a9953c4611296a827abf8c47804d7'')"
  by (simp add: get_key_eval)

lemma get_key_Hello_space: "get_key (str_lit ''Hello '') = Inr (str_lit ''d1a7fb5eab1c16cb4f7cf341cf188c3d'')"
  by (simp add: get_key_eval)

lemma get_key_collision_1:
  "get_key text_collision_1 = Inr (str_lit ''faad49866e9498fc1719f5289e7a0269'')"
  by (simp add: text_collision_1_def get_key_eval)

lemma get_key_collision_2:
  "get_key text_collision_2 = Inr (str_lit ''faad49866e9498fc1719f5289e7a0269'')"
  by (simp add: text_collision_2_def get_key_eval)

section \<open>The cache and the request handler\<close>

lemma Cache_get_key:
  "Cache_get ext c t = Inr r \<Longrightarrow> \<exists>key. get_key t = Inr key"
  by (cases "get_key t") (simp_all add: Cache_get_def)

lemma Cache_set_redis:
  "get_key t = Inr key \<Longrightarrow>
   Cache_set ext (RedisCache client) t v =
     Inr (RedisCache (case redis_setex ext client key CACHE_TTL v of Inl e \<Rightarrow> client | Inr client' \<Rightarrow> client'))"
  by (simp add: Cache_set_def split: sum.splits)

lemma Cache_set_memory:
  "get_key t = Inr key \<Longrightarrow> Cache_set ext (MemoryCache m) t v = Inr (MemoryCache (m(key \<mapsto> v)))"
  by (simp add: Cache_set_def)

lemma Cache_get_memory:
  "get_key t = Inr key \<Longrightarrow> Cache_get ext (MemoryCache m) t = Inr (m key)"
  by (simp add: Cache_get_def)

lemma Cache_set_total:
  "get_key t = Inr key \<Longrightarrow> \<exists>c'. Cache_set ext c t v = Inr c'"
  by (cases c) (simp_all add: Cache_set_redis Cache_set_memory)

lemma observe_Inr:
  "virtual_memory_percent sn = Inr mem \<Longrightarrow> cpu_percent sn = Inr cpu \<Longrightarrow>
   observe sn st i out hit =
     Inr \<lparr>timestamp = time_stamp sn, response_time = time_record sn - st,
          input_length = length i, output_length = length out, cache_hit = hit,
          memory_usage = mem, cpu_usage = cpu\<rparr>"
  by (simp add: observe_def)

lemma observe_Inl:
  assumes "virtual_memory_percent sn = Inl e \<or>
           (\<exists>mem. virtual_memory_percent sn = Inr mem \<and> cpu_percent sn = Inl e)"
  shows "observe sn st i out hit = Inl e"
  using assms by (auto simp: observe_def)

lemma record_request_total:
  "virtual_memory_percent sn = Inr mem \<Longrightarrow> cpu_percent sn = Inr cpu \<Longrightarrow>
   \<exists>mc. record_request sn self st i out hit = Inr mc"
  by (simp add: record_request_def observe_Inr Let_def)

lemma generate_text_hit:
  assumes "Cache_get ext (cache s) (input_text request) = Inr (Some r)" and "r \<noteq> []"
  shows "generate_text ext sn s request =
     (case record_request sn (metrics_collector s) (time_start sn) (input_text request) r True of
        Inl e \<Rightarrow> (Raises e, s)
      | Inr mc \<Rightarrow> (Returns (GenerateResponse r True (time_done sn - time_start sn)),
                   s\<lparr>metrics_collector := mc\<rparr>))"
  using assms by (simp add: generate_text_def Let_def split: sum.splits)

lemma generate_text_miss_failure:
  assumes "Cache_get ext (cache s) (input_text request) = Inr r" and "\<not> truthy r"
    and "engine_generate ext (engine s) (input_text request, max_length request, temperature request)
           = (Inl e, eng)"
  shows "generate_text ext sn s request = (generation_failed e, s\<lparr>engine := eng\<rparr>)"
  using assms by (simp add: generate_text_def Let_def)

lemma generate_text_miss_success:
  assumes "Cache_get ext (cache s) (input_text request) = Inr r" and "\<not> truthy r"
    and "engine_generate ext (engine s) (input_text request, max_length request, temperature request)
           = (Inr decoded, eng)"
    and "Cache_set ext (cache s) (input_text request)
           (strip (drop (length (input_text request)) decoded)) = Inr c"
  shows "generate_text ext sn s request =
     (case record_request sn (metrics_collector s) (time_start sn) (input_text request)
             (strip (drop (length (input_text request)) decoded)) False of
        Inl e \<Rightarrow> (generation_failed e, s\<lparr>engine := eng, cache := c\<rparr>)
      | Inr mc \<Rightarrow>
          (Returns (GenerateResponse (strip (drop (length (input_text request)) decoded)) False
                      (time_done sn - time_start sn)),
           s\<lparr>engine := eng, cache := c, metrics_collector := mc\<rparr>))"
  using assms by (simp add: generate_text_def Let_def split: sum.splits)

lemma generate_text_miss_returns:
  assumes "Cache_get ext (cache s) (input_text request) = Inr looked_up" and "\<not> truthy looked_up"
    and "engine_generate ext (engine s) (input_text request, max_length request, temperature request)
           = (Inr decoded, eng)"
    and "virtual_memory_percent sn = Inr mem" and "cpu_percent sn = Inr cpu"
  shows "\<exists>s'. generate_text ext sn s request =
             (Returns (GenerateResponse (strip (drop (length (input_text request)) decoded)) False
                         (time_done sn - time_start sn)), s')
           \<and> Cache_set ext (cache s) (input_text request)
                (strip (drop (length (input_text request)) decoded)) = Inr (cache s')
           \<and> (\<forall>m. cache s = MemoryCache m \<longrightarrow>
                 Cache_get ext (cache s') (input_text request)
                   = Inr (Some (strip (drop (length (input_text request)) decoded))))"
proof -
  let ?t = "input_text request"
  let ?resp = "strip (drop (length ?t) decoded)"
  from Cache_get_key [OF assms(1)] obtain key where key: "get_key ?t = Inr key" ..
  from Cache_set_total [OF key] obtain c where c: "Cache_set ext (cache s) ?t ?resp = Inr c" ..
  from record_request_total [OF assms(4,5)] obtain mc where
    mc: "record_request sn (metrics_collector s) (time_start sn) ?t ?resp False = Inr mc" ..
  have run: "generate_text ext sn s request =
     (Returns (GenerateResponse ?resp False (time_done sn - time_start sn)),
      s\<lparr>engine := eng, cache := c, metrics_collector := mc\<rparr>)"
    using generate_text_miss_success [OF assms(1,2,3) c, of sn] mc by simp
  have mem: "\<forall>m. cache s = MemoryCache m \<longrightarrow> Cache_get ext c ?t = Inr (Some ?resp)"
    using c key by (auto simp: Cache_set_memory Cache_get_memory)
  show ?thesis
    using run c mem by simp
qed

lemma generate_text_miss_not_raises:
  assumes "Cache_get ext (cache s) (input_text request) = Inr r" and "\<not> truthy r"
  shows "fst (generate_text ext sn s request) \<noteq> Raises x
       \<and> (\<forall>resp t. fst (generate_text ext sn s request) \<noteq> Returns (GenerateResponse resp True t))
       \<and> engine (snd (generate_text ext sn s request)) =
           snd (engine_generate ext (engine s) (input_text request, max_length request, temperature request))"
  using assms
  by (auto simp: generate_text_def Let_def generation_failed_def split: sum.splits prod.splits)

lemma generate_text_cache_irrelevant:
  assumes "Cache_get ext c1 (input_text request) = Inr r1" and "\<not> truthy r1"
      and "Cache_get ext c2 (input_text request) = Inr r2" and "\<not> truthy r2"
  shows "fst (generate_text ext sn (s\<lparr>cache := c1\<rparr>) request) = fst (generate_text ext sn (s\<lparr>cache := c2\<rparr>) request)
       \<and> metrics_collector (snd (generate_text ext sn (s\<lparr>cache := c1\<rparr>) request))
           = metrics_collector (snd (generate_text ext sn (s\<lparr>cache := c2\<rparr>) request))
       \<and> engine (snd (generate_text ext sn (s\<lparr>cache := c1\<rparr>) request))
           = engine (snd (generate_text ext sn (s\<lparr>cache := c2\<rparr>) request))"
proof -
  let ?t = "input_text request"
  from Cache_get_key [OF assms(1)] obtain key where key: "get_key ?t = Inr key" ..
  obtain res eng where e: "engine_generate ext (engine s) (?t, max_length request, temperature request) = (res, eng)"
    by (cases "engine_generate ext (engine s) (?t, max_length request, temperature request)")
  show ?thesis
  proof (cases res)
    case (Inl x)
    then show ?thesis
      using assms e by (simp add: generate_text_miss_failure)
  next
    case (Inr decoded)
    let ?resp = "strip (drop (length ?t) decoded)"
    from Cache_set_total [OF key] obtain c1' where c1: "Cache_set ext c1 ?t ?resp = Inr c1'" ..
    from Cache_set_total [OF key] obtain c2' where c2: "Cache_set ext c2 ?t ?resp = Inr c2'" ..
    have r1: "generate_text ext sn (s\<lparr>cache := c1\<rparr>) request =
       (case record_request sn (metrics_collector s) (time_start sn) ?t ?resp False of
          Inl e \<Rightarrow> (generation_failed e, s\<lparr>cache := c1, engine := eng, cache := c1'\<rparr>)
        | Inr mc \<Rightarrow> (Returns (GenerateResponse ?resp False (time_done sn - time_start sn)),
                     s\<lparr>cache := c1, engine := eng, cache := c1', metrics_collector := mc\<rparr>))"
      using generate_text_miss_success [of ext "s\<lparr>cache := c1\<rparr>" request r1 decoded eng c1' sn]
        assms e Inr c1 by simp
    have r2: "generate_text ext sn (s\<lparr>cache := c2\<rparr>) request =
       (case record_request sn (metrics_collector s) (time_start sn) ?t ?resp False of
          Inl e \<Rightarrow> (generation_failed e, s\<lparr>cache := c2, engine := eng, cache := c2'\<rparr>)
        | Inr mc \<Rightarrow> (Returns (GenerateResponse ?resp False (time_done sn - time_start sn)),
                     s\<lparr>cache := c2, engine := eng, cache := c2', metrics_collector := mc\<rparr>))"
      using generate_text_miss_success [of ext "s\<lparr>cache := c2\<rparr>" request r2 decoded eng c2' sn]
        assms e Inr c2 by simp
    show ?thesis
      unfolding r1 r2 by (simp split: sum.splits)
  qed
qed

lemma encode_no_surrogate:
  "list_all (\<lambda>c. \<not> is_surrogate c) s \<Longrightarrow> encode s = Inr (concat (map utf8_char s))"
proof -
  assume "list_all (\<lambda>c. \<not> is_surrogate c) s"
  then have "find is_surrogate s = None"
    by (simp add: find_None_iff list_all_iff)
  then show ?thesis by (simp add: encode_def)
qed

lemma get_key_no_surrogate:
  "list_all (\<lambda>c. \<not> is_surrogate c) s \<Longrightarrow> \<exists>key. get_key s = Inr key"
  by (simp add: get_key_def encode_no_surrogate)

lemma strip_Nil: "strip [] = []"
  by (simp add: strip_def)

lemma dropWhile_hd_keeps: "xs \<noteq> [] \<Longrightarrow> \<not> P (hd xs) \<Longrightarrow> dropWhile P xs = xs"
  by (cases xs) simp_all

lemma last_dropWhile_keeps: "dropWhile P xs \<noteq> [] \<Longrightarrow> last (dropWhile P xs) = last xs"
proof -
  assume ne: "dropWhile P xs \<noteq> []"
  have "last xs = last (takeWhile P xs @ dropWhile P xs)" by simp
  also have "\<dots> = last (dropWhile P xs)" using ne by (rule last_appendR)
  finally show ?thesis by simp
qed

lemma strip_decompose:
  "s = takeWhile isspace s @ strip s @ rev (takeWhile isspace (rev (dropWhile isspace s)))"
proof -
  let ?d = "dropWhile isspace s"
  have "rev ?d = takeWhile isspace (rev ?d) @ dropWhile isspace (rev ?d)"
    by simp
  then have "rev (rev ?d) = rev (takeWhile isspace (rev ?d) @ dropWhile isspace (rev ?d))"
    by (rule arg_cong)
  then have d: "?d = rev (dropWhile isspace (rev ?d)) @ rev (takeWhile isspace (rev ?d))"
    by (simp only: rev_rev_ident rev_append)
  have "s = takeWhile isspace s @ ?d"
    by simp
  with d show ?thesis
    by (simp only: strip_def)
qed

lemma strip_ends:
  assumes "strip s \<noteq> []"
  shows "\<not> isspace (hd (strip s)) \<and> \<not> isspace (last (strip s))"
proof -
  let ?d = "dropWhile isspace s"
  let ?e = "dropWhile isspace (rev ?d)"
  from assms have e: "?e \<noteq> []"
    by (simp add: strip_def)
  have d: "?d \<noteq> []"
  proof
    assume "?d = []"
    then have "?e = []"
      by (simp only: rev.simps dropWhile.simps)
    with e show False ..
  qed
  have "last (strip s) = hd ?e"
    using e by (simp add: strip_def last_rev)
  moreover have "\<not> isspace (hd ?e)"
    using e by (rule hd_dropWhile)
  moreover have "hd (strip s) = last ?e"
    using e by (simp add: strip_def hd_rev)
  moreover have "last ?e = last (rev ?d)"
    using e by (rule last_dropWhile_keeps)
  moreover have "last (rev ?d) = hd ?d"
    using d by (simp add: last_rev)
  moreover have "\<not> isspace (hd ?d)"
    using d by (rule hd_dropWhile)
  ultimately show ?thesis by simp
qed

lemma strip_unique:
  assumes s: "s = pre @ r @ post" and pre: "list_all isspace pre" and post: "list_all isspace post"
    and ends: "r \<noteq> [] \<longrightarrow> \<not> isspace (hd r) \<and> \<not> isspace (last r)"
  shows "r = strip s"
proof (cases "r = []")
  case True
  have "\<forall>x\<in>set (pre @ post). isspace x"
    using pre post by (auto simp: list_all_iff)
  then have "dropWhile isspace (pre @ post) = []"
    by (simp only: dropWhile_eq_Nil_conv)
  then have "strip (pre @ post) = []"
    by (simp only: strip_def rev.simps dropWhile.simps)
  then show ?thesis
    using True s by simp
next
  case False
  have "dropWhile isspace s = dropWhile isspace (r @ post)"
    unfolding s using pre by (simp add: dropWhile_append2 list_all_iff)
  also have "\<dots> = r @ post"
    using False ends by (simp add: dropWhile_hd_keeps)
  finally have d: "dropWhile isspace s = r @ post" .
  have rp: "\<And>x. x \<in> set (rev post) \<Longrightarrow> isspace x"
    using post by (simp add: list_all_iff)
  have "dropWhile isspace (rev (r @ post)) = dropWhile isspace (rev r)"
    unfolding rev_append by (rule dropWhile_append2) (rule rp)
  also have "\<dots> = rev r"
    using False ends by (simp add: dropWhile_hd_keeps hd_rev)
  finally show ?thesis
    by (simp add: strip_def d)
qed

lemma generate_text_miss_cached:
  assumes "Cache_get ext (cache s) (input_text request) = Inr looked_up" and "\<not> truthy looked_up"
    and "engine_generate ext (engine s) (input_text request, max_length request, temperature request)
           = (Inr decoded, eng)"
    and "Cache_set ext (cache s) (input_text request)
           (strip (drop (length (input_text request)) decoded)) = Inr c"
  shows "cache (snd (generate_text ext sn s request)) = c"
  using generate_text_miss_success [OF assms, of sn] by (simp split: sum.splits)

subsection \<open>The example request\<close>

lemma str_lit_append: "str_lit a @ str_lit b = str_lit (a @ b)"
  by (simp add: str_lit_def)

lemma engine_generate_example:
  "engine_generate (ext_example reply) e (t, ml, temp) = (reply t, Suc e)"
  by (simp add: ext_example_def)

lemma redis_example:
  "redis_get (ext_example reply) r key = Inl (Exn ''ConnectionError'' (str_lit ''Connection refused''))"
  "redis_setex (ext_example reply) r key ttl v = Inl (Exn ''ConnectionError'' (str_lit ''Connection refused''))"
  by (simp_all add: ext_example_def)

lemma app_example_simps:
  "cache (app_example c) = c"
  "metrics_collector (app_example c) = MetricsCollector_init"
  "engine (app_example c) = 0"
  "(app_example c)\<lparr>cache := c'\<rparr> = app_example c'"
  by (simp_all add: app_example_def)

lemma request_hello_simps:
  "input_text request_hello = str_lit ''Hello''"
  "max_length request_hello = MAX_LENGTH"
  "temperature request_hello = TEMPERATURE"
  by (simp_all add: request_hello_def)

lemma sensors_ok_simps:
  "virtual_memory_percent sensors_ok = Inr 50"
  "cpu_percent sensors_ok = Inr 25"
  "time_done sensors_ok - time_start sensors_ok = 2"
  by (simp_all add: sensors_ok_def)

lemma sensors_broken_simps:
  "virtual_memory_percent sensors_broken = Inl (Exn ''OSError'' (str_lit ''no such file''))"
  by (simp add: sensors_broken_def)

lemma Cache_get_example_miss:
  "Cache_get ext (MemoryCache Map.empty) (str_lit ''Hello'') = Inr None"
  by (simp add: Cache_get_memory [OF get_key_Hello])

lemma Cache_get_example_hit:
  "Cache_get ext cache_hello (str_lit ''Hello'') = Inr (Some (str_lit ''world''))"
  by (simp add: cache_hello_def Cache_get_memory [OF get_key_Hello])

lemma Cache_set_example:
  "Cache_set ext (MemoryCache Map.empty) (str_lit ''Hello'') (str_lit ''world'') = Inr cache_hello"
  by (simp add: cache_hello_def Cache_set_memory [OF get_key_Hello])

lemma strip_hello_world:
  "strip (drop (length (str_lit ''Hello'')) (str_lit ''Hello world'')) = str_lit ''world''"
  by (simp add: strip_def isspace_def str_lit_def)

lemma strip_hello: "strip (drop (length (str_lit ''Hello'')) (str_lit ''Hello'')) = []"
  by (simp add: strip_def)

lemma engine_world_hello: "engine_world (str_lit ''Hello'') = Inr (str_lit ''Hello world'')"
  by (simp add: engine_world_def str_lit_append)

lemma world_not_empty: "str_lit ''world'' \<noteq> []"
  by (simp add: str_lit_def)

subsection \<open>The key of a text\<close>

lemma length_le_bytes: "length (le_bytes k n) = k"
  by (simp add: le_bytes_def)

lemma length_md5: "length (md5 bs) = 16"
  by (simp add: md5_def length_le_bytes split: prod.splits)

lemma length_hexdigest: "length (hexdigest bs) = 2 * length bs"
  by (induction bs) (simp_all add: hexdigest_def)

lemma hex_digit_inj:
  assumes "hex_digit m = hex_digit n"
  shows "m mod 16 = n mod 16"
proof -
  have d: "distinct (str_lit ''0123456789abcdef'')"
    by (simp add: str_lit_def)
  have l: "length (str_lit ''0123456789abcdef'') = 16"
    by (simp add: str_lit_def)
  from assms show ?thesis
    unfolding hex_digit_def using d l by (simp add: nth_eq_iff_index_eq)
qed

lemma hex_byte_inj:
  fixes x y :: byte
  assumes "hex_digit (unat x div 16) = hex_digit (unat y div 16)"
    and "hex_digit (unat x) = hex_digit (unat y)"
  shows "x = y"
proof -
  have bx: "unat x < 256" and "unat y < 256"
    using unsigned_less [of x] unsigned_less [of y] by simp_all
  then have hi: "unat x div 16 = unat y div 16"
    using hex_digit_inj [OF assms(1)] by simp
  have lo: "unat x mod 16 = unat y mod 16"
    by (rule hex_digit_inj [OF assms(2)])
  have "unat x = unat y"
    using hi lo by (metis div_mult_mod_eq)
  then show ?thesis by (simp add: word_unat_eq_iff)
qed

lemma hexdigest_inj: "hexdigest a = hexdigest b \<Longrightarrow> a = b"
proof (induction a arbitrary: b)
  case Nil
  then show ?case by (cases b) (simp_all add: hexdigest_def)
next
  case (Cons x a)
  then show ?case
    by (cases b) (auto simp: hexdigest_def dest: hex_byte_inj)
qed

lemma collision_texts_differ: "text_collision_1 \<noteq> text_collision_2"
  by (simp add: text_collision_1_def text_collision_2_def str_lit_def)

section \<open>The claims on the cache and the handler\<close>

text \<open>
  C1: on the redis backend an error raised by the client is caught inside the \<open>Cache\<close>.
  For every text that has a key: when \<open>redis_client.get\<close> raises, \<open>get\<close> returns \<open>None\<close>;
  when \<open>redis_client.setex\<close> raises, \<open>set\<close> returns and the cache is as before; and a request
  whose lookup fails in the client has the outcome and records the metrics of the same
  request on an empty in-process cache, whatever the client does on the later \<open>set\<close>: no
  exception leaves the handler.
\<close>

theorem C1_redis_errors_absorbed:
  assumes "get_key text = Inr key"
  shows "(redis_get ext client key = Inl e \<longrightarrow> Cache_get ext (RedisCache client) text = Inr None)
       \<and> (redis_setex ext client key CACHE_TTL v = Inl e \<longrightarrow>
            Cache_set ext (RedisCache client) text v = Inr (RedisCache client))
       \<and> (redis_get ext client key = Inl e \<and> input_text request = text \<longrightarrow>
            fst (generate_text ext sn (s\<lparr>cache := RedisCache client\<rparr>) request)
              = fst (generate_text ext sn (s\<lparr>cache := MemoryCache Map.empty\<rparr>) request)
          \<and> metrics_collector (snd (generate_text ext sn (s\<lparr>cache := RedisCache client\<rparr>) request))
              = metrics_collector (snd (generate_text ext sn (s\<lparr>cache := MemoryCache Map.empty\<rparr>) request))
          \<and> (\<forall>x. fst (generate_text ext sn (s\<lparr>cache := RedisCache client\<rparr>) request) \<noteq> Raises x))"
proof (intro conjI impI)
  assume "redis_get ext client key = Inl e"
  then show "Cache_get ext (RedisCache client) text = Inr None"
    using assms by (simp add: Cache_get_def)
next
  assume "redis_setex ext client key CACHE_TTL v = Inl e"
  then show "Cache_set ext (RedisCache client) text v = Inr (RedisCache client)"
    using assms by (simp add: Cache_set_redis)
next
  assume a: "redis_get ext client key = Inl e \<and> input_text request = text"
  then have g1: "Cache_get ext (RedisCache client) (input_text request) = Inr None"
    using assms by (simp add: Cache_get_def)
  have g2: "Cache_get ext (MemoryCache Map.empty) (input_text request) = Inr None"
    using assms a by (simp add: Cache_get_memory)
  note eq = generate_text_cache_irrelevant [OF g1 _ g2, of sn s]
  from eq show "fst (generate_text ext sn (s\<lparr>cache := RedisCache client\<rparr>) request)
              = fst (generate_text ext sn (s\<lparr>cache := MemoryCache Map.empty\<rparr>) request)"
    by simp
  from eq show "metrics_collector (snd (generate_text ext sn (s\<lparr>cache := RedisCache client\<rparr>) request))
              = metrics_collector (snd (generate_text ext sn (s\<lparr>cache := MemoryCache Map.empty\<rparr>) request))"
    by simp
  show "\<forall>x. fst (generate_text ext sn (s\<lparr>cache := RedisCache client\<rparr>) request) \<noteq> Raises x"
    using generate_text_miss_not_raises [of ext "s\<lparr>cache := RedisCache client\<rparr>" request None sn] g1
    by simp
qed

theorem C1_redis_errors_absorbed_witness:
  "Cache_get (ext_example engine_world) (RedisCache ()) (str_lit ''Hello'') = Inr None
   \<and> Cache_set (ext_example engine_world) (RedisCache ()) (str_lit ''Hello'') (str_lit ''world'')
       = Inr (RedisCache ())
   \<and> fst (generate_text (ext_example engine_world) sensors_ok (app_example (RedisCache ())) request_hello)
       = fst (generate_text (ext_example engine_world) sensors_ok (app_example (MemoryCache Map.empty))
                request_hello)"
  using C1_redis_errors_absorbed [OF get_key_Hello, where ext = "ext_example engine_world" and client = "()"
      and e = "Exn ''ConnectionError'' (str_lit ''Connection refused'')" and v = "str_lit ''world''"
      and request = request_hello and sn = sensors_ok and s = "app_example (MemoryCache Map.empty)"]
  by (simp add: redis_example app_example_simps request_hello_simps)

text \<open>
  C2: on a cache miss (the lookup returns \<open>None\<close> or the empty string) with a successful
  engine call, for every input text \<open>T\<close> and decoded output \<open>O\<close> the response \<open>r\<close> is \<open>O\<close> with
  exactly the first \<open>len(T)\<close> characters removed and the surrounding whitespace trimmed:
  \<open>O\<close> is its first \<open>len(T)\<close> characters followed by \<open>pre + r + post\<close>, where \<open>pre\<close> and
  \<open>post\<close> consist of whitespace and \<open>r\<close> neither starts nor ends with whitespace, and \<open>r\<close> is
  the only string for which there is such a split. The handler hands \<open>r\<close> to \<open>cache.set\<close>, so
  that an in-process cache then returns it for \<open>T\<close>, and, when the sensors of the metrics
  answer, it returns \<open>r\<close> with \<open>cached = False\<close>. The example is \<open>T = "Hello"\<close>,
  \<open>O = "Hello world"\<close>, with the response \<open>"world"\<close>.
\<close>

theorem C2_prefix_strip:
  assumes "Cache_get ext (cache s) (input_text request) = Inr looked_up" and "\<not> truthy looked_up"
    and "engine_generate ext (engine s) (input_text request, max_length request, temperature request)
           = (Inr decoded, eng)"
  shows "\<exists>r pre post c.
           decoded = take (length (input_text request)) decoded @ pre @ r @ post
         \<and> drop (length (input_text request)) decoded = pre @ r @ post
         \<and> list_all isspace pre \<and> list_all isspace post
         \<and> (r \<noteq> [] \<longrightarrow> \<not> isspace (hd r) \<and> \<not> isspace (last r))
         \<and> (\<forall>pre' r' post'.
               drop (length (input_text request)) decoded = pre' @ r' @ post'
               \<and> list_all isspace pre' \<and> list_all isspace post'
               \<and> (r' \<noteq> [] \<longrightarrow> \<not> isspace (hd r') \<and> \<not> isspace (last r')) \<longrightarrow> r' = r)
         \<and> r = strip (drop (length (input_text request)) decoded)
         \<and> Cache_set ext (cache s) (input_text request) r = Inr c
         \<and> cache (snd (generate_text ext sn s request)) = c
         \<and> (\<forall>m. cache s = MemoryCache m \<longrightarrow> Cache_get ext c (input_text request) = Inr (Some r))
         \<and> (\<forall>mem cpu. virtual_memory_percent sn = Inr mem \<and> cpu_percent sn = Inr cpu \<longrightarrow>
               generate_text ext sn s request =
                 (Returns (GenerateResponse r False (time_done sn - time_start sn)),
                  snd (generate_text ext sn s request)))"
proof -
  let ?t = "input_text request"
  let ?o = "drop (length ?t) decoded"
  let ?r = "strip ?o"
  let ?pre = "takeWhile isspace ?o"
  let ?post = "rev (takeWhile isspace (rev (dropWhile isspace ?o)))"
  from Cache_get_key [OF assms(1)] obtain key where key: "get_key ?t = Inr key" ..
  from Cache_set_total [OF key] obtain c where c: "Cache_set ext (cache s) ?t ?r = Inr c" ..
  have dec: "?o = ?pre @ ?r @ ?post"
    by (rule strip_decompose)
  have whole: "decoded = take (length ?t) decoded @ ?pre @ ?r @ ?post"
    using dec by (metis append_take_drop_id)
  have pre: "list_all isspace ?pre"
    by (simp add: list_all_iff) (meson set_takeWhileD)
  have post: "list_all isspace ?post"
    by (simp add: list_all_iff) (meson set_takeWhileD)
  have ends: "?r \<noteq> [] \<longrightarrow> \<not> isspace (hd ?r) \<and> \<not> isspace (last ?r)"
    using strip_ends by blast
  have uniq: "\<forall>pre' r' post'.
               ?o = pre' @ r' @ post' \<and> list_all isspace pre' \<and> list_all isspace post'
               \<and> (r' \<noteq> [] \<longrightarrow> \<not> isspace (hd r') \<and> \<not> isspace (last r')) \<longrightarrow> r' = ?r"
    using strip_unique by blast
  have cached: "cache (snd (generate_text ext sn s request)) = c"
    by (rule generate_text_miss_cached [OF assms c])
  have mem: "\<forall>m. cache s = MemoryCache m \<longrightarrow> Cache_get ext c ?t = Inr (Some ?r)"
    using c key by (auto simp: Cache_set_memory Cache_get_memory)
  have ret: "\<forall>mem cpu. virtual_memory_percent sn = Inr mem \<and> cpu_percent sn = Inr cpu \<longrightarrow>
               generate_text ext sn s request =
                 (Returns (GenerateResponse ?r False (time_done sn - time_start sn)),
                  snd (generate_text ext sn s request))"
  proof (intro allI impI)
    fix mem cpu
    assume a: "virtual_memory_percent sn = Inr mem \<and> cpu_percent sn = Inr cpu"
    from generate_text_miss_returns [OF assms, of sn mem cpu] a
    obtain s' where "generate_text ext sn s request =
        (Returns (GenerateResponse ?r False (time_done sn - time_start sn)), s')"
      by blast
    then show "generate_text ext sn s request =
                 (Returns (GenerateResponse ?r False (time_done sn - time_start sn)),
                  snd (generate_text ext sn s request))"
      by simp
  qed
  show ?thesis
    by (intro exI [of _ ?r] exI [of _ ?pre] exI [of _ ?post] exI [of _ c] conjI
          whole dec pre post ends uniq refl c cached mem ret)
qed

theorem C2_prefix_strip_witness:
  "fst (generate_text (ext_example engine_world) sensors_ok (app_example (MemoryCache Map.empty))
          request_hello)
     = Returns (GenerateResponse (str_lit ''world'') False 2)
   \<and> cache (snd (generate_text (ext_example engine_world) sensors_ok (app_example (MemoryCache Map.empty))
                    request_hello))
     = cache_hello"
proof -
  let ?ext = "ext_example engine_world"
  let ?s = "app_example (MemoryCache Map.empty)"
  have miss: "Cache_get ?ext (cache ?s) (input_text request_hello) = Inr None"
    by (simp add: app_example_simps request_hello_simps Cache_get_example_miss)
  have falsy: "\<not> truthy None" by simp
  have eng: "engine_generate ?ext (engine ?s)
               (input_text request_hello, max_length request_hello, temperature request_hello)
             = (Inr (str_lit ''Hello world''), 1)"
    by (simp add: engine_generate_example app_example_simps request_hello_simps engine_world_hello)
  from C2_prefix_strip [OF miss falsy eng, of sensors_ok]
  obtain r c where r: "r = strip (drop (length (input_text request_hello)) (str_lit ''Hello world''))"
    and c: "Cache_set ?ext (cache ?s) (input_text request_hello) r = Inr c"
    and cached: "cache (snd (generate_text ?ext sensors_ok ?s request_hello)) = c"
    and ret: "\<forall>mem cpu. virtual_memory_percent sensors_ok = Inr mem \<and> cpu_percent sensors_ok = Inr cpu \<longrightarrow>
               generate_text ?ext sensors_ok ?s request_hello =
                 (Returns (GenerateResponse r False (time_done sensors_ok - time_start sensors_ok)),
                  snd (generate_text ?ext sensors_ok ?s request_hello))"
    by blast
  have world: "r = str_lit ''world''"
    using r by (simp add: request_hello_simps strip_hello_world)
  have "c = cache_hello"
    using c unfolding world by (simp add: app_example_simps request_hello_simps Cache_set_example)
  moreover have "fst (generate_text ?ext sensors_ok ?s request_hello)
                   = Returns (GenerateResponse (str_lit ''world'') False 2)"
    using ret [rule_format, of 50 25] unfolding world
    by (metis fst_conv sensors_ok_simps)
  ultimately show ?thesis
    using cached by simp
qed

text \<open>
  C5: when the engine raises \<open>e\<close> on a cache miss, the handler answers with HTTP 500 and the
  detail \<open>"Generation failed: " + str(e)\<close>; the engine was called once (the state differs
  only in the engine), the cache and the metrics history are unchanged.
\<close>

theorem C5_engine_failure:
  assumes "Cache_get ext (cache s) (input_text request) = Inr looked_up" and "\<not> truthy looked_up"
    and "engine_generate ext (engine s) (input_text request, max_length request, temperature request)
           = (Inl e, eng)"
  shows "generate_text ext sn s request =
           (HTTPException 500 (str_lit ''Generation failed: '' @ exn_str e), s\<lparr>engine := eng\<rparr>)
         \<and> cache (snd (generate_text ext sn s request)) = cache s
         \<and> metrics_collector (snd (generate_text ext sn s request)) = metrics_collector s"
  using generate_text_miss_failure [OF assms] by (simp add: generation_failed_def)

theorem C5_engine_failure_witness:
  "generate_text (ext_example engine_broken) sensors_ok (app_example (MemoryCache Map.empty)) request_hello
     = (HTTPException 500 (str_lit ''Generation failed: out of memory''),
        \<lparr>cache = MemoryCache Map.empty, metrics_collector = MetricsCollector_init, engine = 1\<rparr>)"
proof -
  let ?ext = "ext_example engine_broken"
  let ?s = "app_example (MemoryCache Map.empty)"
  have miss: "Cache_get ?ext (cache ?s) (input_text request_hello) = Inr None"
    by (simp add: app_example_simps request_hello_simps Cache_get_example_miss)
  have falsy: "\<not> truthy None" by simp
  have eng: "engine_generate ?ext (engine ?s)
               (input_text request_hello, max_length request_hello, temperature request_hello)
             = (Inl (Exn ''RuntimeError'' (str_lit ''out of memory'')), 1)"
    by (simp add: engine_generate_example app_example_simps engine_broken_def)
  from C5_engine_failure [OF miss falsy eng, of sensors_ok]
  show ?thesis
    by (simp add: str_lit_append) (simp add: app_example_def)
qed

text \<open>
  The reading of host memory has no handler in \<open>record_request\<close>. With the sensors of
  \<open>sensors_broken\<close> the request for \<open>"Hello"\<close> is not served: on a cache hit the \<open>OSError\<close>
  leaves the handler, on a cache miss it becomes an HTTP 500.
\<close>

theorem C6_sampling_failure_counterexample:
  "fst (generate_text (ext_example engine_world) sensors_broken (app_example cache_hello) request_hello)
     = Raises (Exn ''OSError'' (str_lit ''no such file''))
   \<and> fst (generate_text (ext_example engine_world) sensors_broken (app_example (MemoryCache Map.empty))
            request_hello)
     = HTTPException 500 (str_lit ''Generation failed: no such file'')"
proof -
  have rec: "\<And>mc st i out h. record_request sensors_broken mc st i out h
               = Inl (Exn ''OSError'' (str_lit ''no such file''))"
    by (simp add: record_request_def observe_def sensors_broken_def)
  let ?ext = "ext_example engine_world"
  let ?hit = "app_example cache_hello"
  have hit: "Cache_get ?ext (cache ?hit) (input_text request_hello) = Inr (Some (str_lit ''world''))"
    by (simp add: app_example_simps request_hello_simps Cache_get_example_hit)
  have one: "fst (generate_text ?ext sensors_broken ?hit request_hello)
     = Raises (Exn ''OSError'' (str_lit ''no such file''))"
    by (simp add: generate_text_hit [OF hit world_not_empty] rec)
  let ?s = "app_example (MemoryCache Map.empty)"
  have miss: "Cache_get ?ext (cache ?s) (input_text request_hello) = Inr None"
    by (simp add: app_example_simps request_hello_simps Cache_get_example_miss)
  have falsy: "\<not> truthy None" by simp
  have eng: "engine_generate ?ext (engine ?s)
               (input_text request_hello, max_length request_hello, temperature request_hello)
             = (Inr (str_lit ''Hello world''), 1)"
    by (simp add: engine_generate_example app_example_simps request_hello_simps engine_world_hello)
  have set: "Cache_set ?ext (cache ?s) (input_text request_hello)
           (strip (drop (length (input_text request_hello)) (str_lit ''Hello world'')))
         = Inr cache_hello"
    by (simp add: app_example_simps request_hello_simps strip_hello_world Cache_set_example)
  have two: "fst (generate_text ?ext sensors_broken ?s request_hello)
     = HTTPException 500 (str_lit ''Generation failed: no such file'')"
    by (simp add: generate_text_miss_success [OF miss falsy eng set] rec generation_failed_def str_lit_append)
  from one two show ?thesis by simp
qed

text \<open>
  C6, as the code has it: if reading host memory or CPU utilisation raises \<open>e\<close> while the
  metrics are recorded, \<open>record_request\<close> raises \<open>e\<close> and records nothing, and no value stands
  in for the missing sample. On the cache-hit path \<open>e\<close> leaves the handler and the state is
  unchanged; on the cache-miss path, after a successful engine call, the completion has been
  stored in the cache and the handler answers with HTTP 500 and the detail
  \<open>"Generation failed: " + str(e)\<close>.
\<close>

theorem C6_sampling_failure_propagates:
  assumes "virtual_memory_percent sn = Inl e \<or>
           (\<exists>mem. virtual_memory_percent sn = Inr mem \<and> cpu_percent sn = Inl e)"
  shows "record_request sn mc st i out hit = Inl e
       \<and> (Cache_get ext (cache s) (input_text request) = Inr (Some r) \<and> r \<noteq> [] \<longrightarrow>
            generate_text ext sn s request = (Raises e, s))
       \<and> (Cache_get ext (cache s) (input_text request) = Inr looked_up \<and> \<not> truthy looked_up \<and>
          engine_generate ext (engine s) (input_text request, max_length request, temperature request)
            = (Inr decoded, eng) \<longrightarrow>
            (\<exists>c. Cache_set ext (cache s) (input_text request)
                    (strip (drop (length (input_text request)) decoded)) = Inr c \<and>
                 generate_text ext sn s request =
                   (HTTPException 500 (str_lit ''Generation failed: '' @ exn_str e),
                    s\<lparr>engine := eng, cache := c\<rparr>)))"
proof -
  have rec: "\<And>mc st i out hit. record_request sn mc st i out hit = Inl e"
    using observe_Inl [OF assms] by (simp add: record_request_def)
  show ?thesis
  proof (intro conjI impI)
    show "record_request sn mc st i out hit = Inl e" by (rule rec)
  next
    assume "Cache_get ext (cache s) (input_text request) = Inr (Some r) \<and> r \<noteq> []"
    then show "generate_text ext sn s request = (Raises e, s)"
      by (simp add: generate_text_hit rec)
  next
    let ?t = "input_text request"
    assume a: "Cache_get ext (cache s) ?t = Inr looked_up \<and> \<not> truthy looked_up \<and>
          engine_generate ext (engine s) (?t, max_length request, temperature request)
            = (Inr decoded, eng)"
    then obtain key where key: "get_key ?t = Inr key"
      using Cache_get_key by blast
    from Cache_set_total [OF key] obtain c where
      c: "Cache_set ext (cache s) ?t (strip (drop (length ?t) decoded)) = Inr c" ..
    have "generate_text ext sn s request =
            (generation_failed e, s\<lparr>engine := eng, cache := c\<rparr>)"
      using generate_text_miss_success [of ext s request looked_up decoded eng c sn] a c
      by (simp add: rec)
    then show "\<exists>c. Cache_set ext (cache s) ?t (strip (drop (length ?t) decoded)) = Inr c \<and>
                 generate_text ext sn s request =
                   (HTTPException 500 (str_lit ''Generation failed: '' @ exn_str e),
                    s\<lparr>engine := eng, cache := c\<rparr>)"
      using c by (auto simp: generation_failed_def)
  qed
qed

theorem C6_sampling_failure_propagates_witness:
  "record_request sensors_broken MetricsCollector_init 10 (str_lit ''Hello'') (str_lit ''world'') True
     = Inl (Exn ''OSError'' (str_lit ''no such file''))
   \<and> generate_text (ext_example engine_world) sensors_broken (app_example cache_hello) request_hello
     = (Raises (Exn ''OSError'' (str_lit ''no such file'')), app_example cache_hello)
   \<and> generate_text (ext_example engine_world) sensors_broken (app_example (MemoryCache Map.empty))
        request_hello
     = (HTTPException 500 (str_lit ''Generation failed: no such file''),
        \<lparr>cache = cache_hello, metrics_collector = MetricsCollector_init, engine = 1\<rparr>)"
proof -
  let ?ext = "ext_example engine_world"
  let ?e = "Exn ''OSError'' (str_lit ''no such file'')"
  have fails: "virtual_memory_percent sensors_broken = Inl ?e \<or>
           (\<exists>mem. virtual_memory_percent sensors_broken = Inr mem \<and> cpu_percent sensors_broken = Inl ?e)"
    by (simp add: sensors_broken_simps)
  have hit: "Cache_get ?ext (cache (app_example cache_hello)) (input_text request_hello)
               = Inr (Some (str_lit ''world''))"
    by (simp add: app_example_simps request_hello_simps Cache_get_example_hit)
  let ?s = "app_example (MemoryCache Map.empty)"
  have miss: "Cache_get ?ext (cache ?s) (input_text request_hello) = Inr None"
    by (simp add: app_example_simps request_hello_simps Cache_get_example_miss)
  have eng: "engine_generate ?ext (engine ?s)
               (input_text request_hello, max_length request_hello, temperature request_hello)
             = (Inr (str_lit ''Hello world''), 1)"
    by (simp add: engine_generate_example app_example_simps request_hello_simps engine_world_hello)
  have set: "Cache_set ?ext (cache ?s) (input_text request_hello)
           (strip (drop (length (input_text request_hello)) (str_lit ''Hello world'')))
         = Inr cache_hello"
    by (simp add: app_example_simps request_hello_simps strip_hello_world Cache_set_example)
  note hitpath = C6_sampling_failure_propagates [OF fails, where mc = MetricsCollector_init and st = 10
      and i = "str_lit ''Hello''" and out = "str_lit ''world''" and hit = True
      and ext = ?ext and s = "app_example cache_hello" and request = request_hello
      and r = "str_lit ''world''"]
  note misspath = C6_sampling_failure_propagates [OF fails, where ext = ?ext and s = ?s
      and request = request_hello and looked_up = None and decoded = "str_lit ''Hello world''"
      and eng = 1]
  have a: "record_request sensors_broken MetricsCollector_init 10 (str_lit ''Hello'') (str_lit ''world'') True
     = Inl ?e"
    using hitpath by simp
  have b: "generate_text ?ext sensors_broken (app_example cache_hello) request_hello
     = (Raises ?e, app_example cache_hello)"
    using hitpath hit world_not_empty by simp
  have c: "generate_text ?ext sensors_broken ?s request_hello
     = (HTTPException 500 (str_lit ''Generation failed: no such file''),
        \<lparr>cache = cache_hello, metrics_collector = MetricsCollector_init, engine = 1\<rparr>)"
    using misspath miss eng set by (simp add: str_lit_append) (simp add: app_example_def)
  from a b c show ?thesis by simp
qed

text \<open>
  Two texts that differ in one byte and have the same key: after \<open>set\<close> on the first, \<open>get\<close> on
  the second returns the first one's value.
\<close>

theorem C8_fingerprint_collision_counterexample:
  "text_collision_1 \<noteq> text_collision_2
   \<and> encode text_collision_1 \<noteq> encode text_collision_2
   \<and> get_key text_collision_1 = get_key text_collision_2
   \<and> Cache_set (ext_example engine_world) (MemoryCache Map.empty) text_collision_1 (str_lit ''world'')
       = Inr (MemoryCache [str_lit ''faad49866e9498fc1719f5289e7a0269'' \<mapsto> str_lit ''world''])
   \<and> Cache_get (ext_example engine_world)
        (MemoryCache [str_lit ''faad49866e9498fc1719f5289e7a0269'' \<mapsto> str_lit ''world''])
        text_collision_2
       = Inr (Some (str_lit ''world''))"
proof -
  have "encode text_collision_1 \<noteq> encode text_collision_2"
    by (simp add: text_collision_1_def text_collision_2_def str_lit_def encode_def is_surrogate_def
          utf8_char_def)
  then show ?thesis
    by (simp add: collision_texts_differ get_key_collision_1 get_key_collision_2
          Cache_set_memory [OF get_key_collision_1] Cache_get_memory [OF get_key_collision_2])
qed

text \<open>
  C8, as the code has it: the key of a text is the MD5 digest of its UTF-8 bytes, written as
  32 hexadecimal digits, with no normalisation of the text. Two texts have the same key, and
  the in-process cache holds them as one entry, exactly when the digests of their bytes are
  equal: after \<open>set(T1, v)\<close>, \<open>get(T2)\<close> returns \<open>v\<close> if the digests are equal and what the
  cache held for \<open>T2\<close> otherwise. The texts \<open>"Hello"\<close> and \<open>"Hello "\<close>, which differ by a trailing
  space, have different keys.
\<close>

theorem C8_fingerprint_by_digest:
  assumes "encode T1 = Inr b1" and "encode T2 = Inr b2"
  shows "get_key T1 = Inr (hexdigest (md5 b1))
       \<and> length (hexdigest (md5 b1)) = 32
       \<and> (get_key T1 = get_key T2 \<longleftrightarrow> md5 b1 = md5 b2)
       \<and> Cache_set ext (MemoryCache m) T1 v = Inr (MemoryCache (m(hexdigest (md5 b1) \<mapsto> v)))
       \<and> Cache_get ext (MemoryCache (m(hexdigest (md5 b1) \<mapsto> v))) T2
           = Inr (if md5 b1 = md5 b2 then Some v else m (hexdigest (md5 b2)))
       \<and> get_key (str_lit ''Hello'') \<noteq> get_key (str_lit ''Hello '')"
proof -
  have k1: "get_key T1 = Inr (hexdigest (md5 b1))" and k2: "get_key T2 = Inr (hexdigest (md5 b2))"
    using assms by (simp_all add: get_key_def)
  have eq: "hexdigest (md5 b1) = hexdigest (md5 b2) \<longleftrightarrow> md5 b1 = md5 b2"
    using hexdigest_inj by auto
  have hello: "get_key (str_lit ''Hello'') \<noteq> get_key (str_lit ''Hello '')"
    unfolding get_key_Hello get_key_Hello_space by (simp add: str_lit_def)
  have len: "length (hexdigest (md5 b1)) = 32"
    by (simp add: length_hexdigest length_md5)
  have keys: "get_key T1 = get_key T2 \<longleftrightarrow> md5 b1 = md5 b2"
    using eq by (simp add: k1 k2)
  have set: "Cache_set ext (MemoryCache m) T1 v = Inr (MemoryCache (m(hexdigest (md5 b1) \<mapsto> v)))"
    by (rule Cache_set_memory [OF k1])
  have get: "Cache_get ext (MemoryCache (m(hexdigest (md5 b1) \<mapsto> v))) T2
           = Inr (if md5 b1 = md5 b2 then Some v else m (hexdigest (md5 b2)))"
  proof (cases "md5 b1 = md5 b2")
    case True
    then show ?thesis by (simp add: Cache_get_memory [OF k2])
  next
    case False
    then have "hexdigest (md5 b2) \<noteq> hexdigest (md5 b1)"
      using eq by auto
    with False show ?thesis by (simp add: Cache_get_memory [OF k2])
  qed
  from k1 len keys set get hello show ?thesis
    by (intro conjI)
qed

theorem C8_fingerprint_by_digest_witness:
  "get_key (str_lit ''Hello'') = Inr (hexdigest (md5 [0x48, 0x65, 0x6c, 0x6c, 0x6f]))
   \<and> md5 [0x48, 0x65, 0x6c, 0x6c, 0x6f] \<noteq> md5 [0x48, 0x65, 0x6c, 0x6c, 0x6f, 0x20]
   \<and> Cache_get (ext_example engine_world) cache_hello (str_lit ''Hello '') = Inr None"
proof -
  have e1: "encode (str_lit ''Hello'') = Inr [0x48, 0x65, 0x6c, 0x6c, 0x6f]"
    by (simp add: str_lit_def encode_def is_surrogate_def utf8_char_def)
  have e2: "encode (str_lit ''Hello '') = Inr [0x48, 0x65, 0x6c, 0x6c, 0x6f, 0x20]"
    by (simp add: str_lit_def encode_def is_surrogate_def utf8_char_def)
  note th = C8_fingerprint_by_digest [OF e1 e2, of "ext_example engine_world" Map.empty "str_lit ''world''"]
  from th have k: "hexdigest (md5 [0x48, 0x65, 0x6c, 0x6c, 0x6f]) = str_lit ''8b1a9953c4611296a827abf8c47804d7''"
    by (simp add: get_key_Hello)
  from th have ne: "md5 [0x48, 0x65, 0x6c, 0x6c, 0x6f] \<noteq> md5 [0x48, 0x65, 0x6c, 0x6c, 0x6f, 0x20]"
    by blast
  from th have get: "Cache_get (ext_example engine_world)
           (MemoryCache [hexdigest (md5 [0x48, 0x65, 0x6c, 0x6c, 0x6f]) \<mapsto> str_lit ''world''])
           (str_lit ''Hello '')
         = Inr (if md5 [0x48, 0x65, 0x6c, 0x6c, 0x6f] = md5 [0x48, 0x65, 0x6c, 0x6c, 0x6f, 0x20]
                then Some (str_lit ''world'')
                else Map.empty (hexdigest (md5 [0x48, 0x65, 0x6c, 0x6c, 0x6f, 0x20])))"
    by blast
  from th have key: "get_key (str_lit ''Hello'') = Inr (hexdigest (md5 [0x48, 0x65, 0x6c, 0x6c, 0x6f]))"
    by blast
  show ?thesis
    using key ne get unfolding k by (simp add: cache_hello_def)
qed

text \<open>
  C9: on the in-process backend, for every text \<open>k\<close> that UTF-8 can encode (a string with no
  lone surrogate) and every value \<open>v\<close>, \<open>set(k, v)\<close> returns and \<open>get(k)\<close> on the resulting
  cache returns \<open>v\<close>.
\<close>

theorem C9_memory_round_trip:
  assumes "list_all (\<lambda>c. \<not> is_surrogate c) k"
  shows "\<exists>c. Cache_set ext (MemoryCache m) k v = Inr c \<and> Cache_get ext c k = Inr (Some v)"
proof -
  from get_key_no_surrogate [OF assms] obtain key where "get_key k = Inr key" ..
  then show ?thesis
    by (simp add: Cache_set_memory Cache_get_memory)
qed

theorem C9_memory_round_trip_witness:
  "Cache_set (ext_example engine_world) (MemoryCache Map.empty) (str_lit ''Hello'') (str_lit ''world'')
     = Inr cache_hello
   \<and> Cache_get (ext_example engine_world) cache_hello (str_lit ''Hello'') = Inr (Some (str_lit ''world''))"
proof -
  have ok: "list_all (\<lambda>c. \<not> is_surrogate c) (str_lit ''Hello'')"
    by (simp add: str_lit_def is_surrogate_def)
  from C9_memory_round_trip [OF ok, of "ext_example engine_world" Map.empty "str_lit ''world''"]
  show ?thesis
    by (auto simp: Cache_set_example)
qed

text \<open>
  C10: when the completion of a request is the empty string, it is stored in the (in-process)
  cache, and \<open>get\<close> returns it for the same text. The next request for that text is not a
  cache hit: the handler never returns \<open>cached = True\<close> for it, it calls the engine again,
  and when that call and the sensors succeed it returns the new completion with
  \<open>cached = False\<close>.
\<close>

theorem C10_empty_completion_never_hit:
  assumes "cache s = MemoryCache m" and "get_key (input_text request) = Inr key"
    and "\<not> truthy (m key)"
    and "engine_generate ext (engine s) (input_text request, max_length request, temperature request)
           = (Inr decoded, eng)"
    and "strip (drop (length (input_text request)) decoded) = []"
    and "virtual_memory_percent sn = Inr mem" and "cpu_percent sn = Inr cpu"
    and "input_text request' = input_text request"
  shows "\<exists>s1. generate_text ext sn s request =
                (Returns (GenerateResponse [] False (time_done sn - time_start sn)), s1)
        \<and> cache s1 = MemoryCache (m(key \<mapsto> []))
        \<and> Cache_get ext (cache s1) (input_text request') = Inr (Some [])
        \<and> (\<forall>r t. fst (generate_text ext sn' s1 request') \<noteq> Returns (GenerateResponse r True t))
        \<and> engine (snd (generate_text ext sn' s1 request')) =
            snd (engine_generate ext (engine s1)
                   (input_text request', max_length request', temperature request'))
        \<and> (\<forall>decoded' eng' mem' cpu'.
             engine_generate ext (engine s1)
                (input_text request', max_length request', temperature request') = (Inr decoded', eng')
             \<and> virtual_memory_percent sn' = Inr mem' \<and> cpu_percent sn' = Inr cpu' \<longrightarrow>
             fst (generate_text ext sn' s1 request') =
               Returns (GenerateResponse (strip (drop (length (input_text request')) decoded')) False
                          (time_done sn' - time_start sn')))"
proof -
  let ?t = "input_text request"
  have g: "Cache_get ext (cache s) ?t = Inr (m key)"
    using assms(1,2) by (simp add: Cache_get_memory)
  have c: "Cache_set ext (cache s) ?t (strip (drop (length ?t) decoded)) = Inr (MemoryCache (m(key \<mapsto> [])))"
    using assms(1,2,5) by (simp add: Cache_set_memory)
  from record_request_total [OF assms(6,7)] obtain mc where
    mc: "record_request sn (metrics_collector s) (time_start sn) ?t [] False = Inr mc" ..
  define s1 where "s1 = s\<lparr>engine := eng, cache := MemoryCache (m(key \<mapsto> [])), metrics_collector := mc\<rparr>"
  have run: "generate_text ext sn s request =
                (Returns (GenerateResponse [] False (time_done sn - time_start sn)), s1)"
    using generate_text_miss_success [OF g assms(3,4) c, of sn] mc assms(5)
    by (simp add: s1_def)
  have g1: "Cache_get ext (cache s1) (input_text request') = Inr (Some [])"
    using assms(2,8) by (simp add: s1_def Cache_get_memory)
  have nt: "\<not> truthy (Some [])" by simp
  note second = generate_text_miss_not_raises [OF g1 nt, of sn']
  have third: "\<forall>decoded' eng' mem' cpu'.
             engine_generate ext (engine s1)
                (input_text request', max_length request', temperature request') = (Inr decoded', eng')
             \<and> virtual_memory_percent sn' = Inr mem' \<and> cpu_percent sn' = Inr cpu' \<longrightarrow>
             fst (generate_text ext sn' s1 request') =
               Returns (GenerateResponse (strip (drop (length (input_text request')) decoded')) False
                          (time_done sn' - time_start sn'))"
  proof (intro allI impI)
    fix decoded' eng' mem' cpu'
    assume a: "engine_generate ext (engine s1)
                (input_text request', max_length request', temperature request') = (Inr decoded', eng')
             \<and> virtual_memory_percent sn' = Inr mem' \<and> cpu_percent sn' = Inr cpu'"
    from generate_text_miss_returns [OF g1 nt, of decoded' eng' sn' mem' cpu'] a
    show "fst (generate_text ext sn' s1 request') =
               Returns (GenerateResponse (strip (drop (length (input_text request')) decoded')) False
                          (time_done sn' - time_start sn'))"
      by auto
  qed
  show ?thesis
    using run g1 second third by (intro exI [of _ s1]) (simp add: s1_def)
qed

theorem C10_empty_completion_never_hit_witness:
  "fst (generate_text (ext_example engine_echo) sensors_ok (app_example (MemoryCache Map.empty)) request_hello)
     = Returns (GenerateResponse [] False 2)
   \<and> Cache_get (ext_example engine_echo)
        (cache (snd (generate_text (ext_example engine_echo) sensors_ok
                       (app_example (MemoryCache Map.empty)) request_hello)))
        (str_lit ''Hello'') = Inr (Some [])
   \<and> fst (generate_text (ext_example engine_echo) sensors_ok
            (snd (generate_text (ext_example engine_echo) sensors_ok
                    (app_example (MemoryCache Map.empty)) request_hello))
            request_hello)
     = Returns (GenerateResponse [] False 2)
   \<and> engine (snd (generate_text (ext_example engine_echo) sensors_ok
            (snd (generate_text (ext_example engine_echo) sensors_ok
                    (app_example (MemoryCache Map.empty)) request_hello))
            request_hello)) = 2"
proof -
  let ?ext = "ext_example engine_echo"
  let ?s = "app_example (MemoryCache Map.empty)"
  have c: "cache ?s = MemoryCache Map.empty"
    by (simp add: app_example_simps)
  have key: "get_key (input_text request_hello) = Inr (str_lit ''8b1a9953c4611296a827abf8c47804d7'')"
    by (simp add: request_hello_simps get_key_Hello)
  have falsy: "\<not> truthy (Map.empty (str_lit ''8b1a9953c4611296a827abf8c47804d7''))"
    by simp
  have eng: "engine_generate ?ext (engine ?s)
               (input_text request_hello, max_length request_hello, temperature request_hello)
             = (Inr (str_lit ''Hello''), 1)"
    by (simp add: engine_generate_example app_example_simps request_hello_simps engine_echo_def)
  have empty: "strip (drop (length (input_text request_hello)) (str_lit ''Hello'')) = []"
    by (simp add: request_hello_simps strip_hello strip_Nil)
  from C10_empty_completion_never_hit [OF c key falsy eng empty sensors_ok_simps(1) sensors_ok_simps(2) refl,
      of sensors_ok]
  obtain s1 where
    run: "generate_text ?ext sensors_ok ?s request_hello =
            (Returns (GenerateResponse [] False (time_done sensors_ok - time_start sensors_ok)), s1)"
    and g: "Cache_get ?ext (cache s1) (input_text request_hello) = Inr (Some [])"
    and e1: "engine (snd (generate_text ?ext sensors_ok s1 request_hello)) =
            snd (engine_generate ?ext (engine s1)
                   (input_text request_hello, max_length request_hello, temperature request_hello))"
    and again: "\<forall>decoded' eng' mem' cpu'.
             engine_generate ?ext (engine s1)
                (input_text request_hello, max_length request_hello, temperature request_hello) = (Inr decoded', eng')
             \<and> virtual_memory_percent sensors_ok = Inr mem' \<and> cpu_percent sensors_ok = Inr cpu' \<longrightarrow>
             fst (generate_text ?ext sensors_ok s1 request_hello) =
               Returns (GenerateResponse (strip (drop (length (input_text request_hello)) decoded')) False
                          (time_done sensors_ok - time_start sensors_ok))"
    by blast
  have s1: "s1 = snd (generate_text ?ext sensors_ok ?s request_hello)"
    using run by simp
  have eng1: "engine s1 = 1"
    unfolding s1 using generate_text_miss_not_raises [of ?ext ?s request_hello None sensors_ok]
    by (simp add: app_example_simps request_hello_simps Cache_get_example_miss engine_generate_example)
  have "fst (generate_text ?ext sensors_ok s1 request_hello) =
               Returns (GenerateResponse (strip (drop (length (input_text request_hello)) (str_lit ''Hello''))) False
                          (time_done sensors_ok - time_start sensors_ok))"
    using again [rule_format, of "str_lit ''Hello''" "Suc (engine s1)" 50 25]
    by (simp add: engine_generate_example request_hello_simps sensors_ok_simps engine_echo_def)
  then show ?thesis
    using run g e1 eng1 unfolding s1 [symmetric]
    by (simp add: request_hello_simps sensors_ok_simps strip_hello strip_Nil engine_generate_example)
qed

end
